theory Spec2Isabelle
  imports Main
begin

section \<open>Pagination window (components/Pagination, \<open>generatePageNumbers\<close>)\<close>

text \<open>
  The page strip is an array of \<^verbatim>\<open>number | 'ellipsis'\<close>. Page numbers are JavaScript
  numbers holding page counts; they are modelled as \<open>int\<close>.
\<close>

datatype page_item = Page int | Ellipsis

text \<open>
  \<^verbatim>\<open>for (let i = lo; i <= hi; i++) pages.push(i)\<close>: the loop of the small-total branch,
  of the near-the-beginning branch and of the middle branch.
\<close>

function push_range :: "int \<Rightarrow> int \<Rightarrow> page_item list \<Rightarrow> page_item list" where
  "push_range i hi pages = (if i \<le> hi then push_range (i + 1) hi (pages @ [Page i]) else pages)"
  by pat_completeness auto
termination
  by (relation "measure (\<lambda>(i, hi, pages). nat (hi + 1 - i))") auto

text \<open>
  \<^verbatim>\<open>for (let i = lo; i <= hi; i++) { if (i > 1) pages.push(i) }\<close>: the loop of the
  near-the-end branch.
\<close>

function push_range_gt1 :: "int \<Rightarrow> int \<Rightarrow> page_item list \<Rightarrow> page_item list" where
  "push_range_gt1 i hi pages =
     (if i \<le> hi then push_range_gt1 (i + 1) hi (if i > 1 then pages @ [Page i] else pages)
      else pages)"
  by pat_completeness auto
termination
  by (relation "measure (\<lambda>(i, hi, pages). nat (hi + 1 - i))") auto

declare push_range.simps [simp del]
declare push_range_gt1.simps [simp del]

definition maxVisiblePages :: int where
  "maxVisiblePages = 5"

definition generatePageNumbers :: "int \<Rightarrow> int \<Rightarrow> page_item list" where
  "generatePageNumbers currentPage totalPages =
     (if totalPages \<le> maxVisiblePages then push_range 1 totalPages []
      else if currentPage \<le> 3 then push_range 2 4 [Page 1] @ [Ellipsis, Page totalPages]
      else if currentPage \<ge> totalPages - 2
        then push_range_gt1 (totalPages - 3) totalPages ([Page 1] @ [Ellipsis])
      else push_range (currentPage - 1) (currentPage + 1) ([Page 1] @ [Ellipsis])
             @ [Ellipsis, Page totalPages])"

section \<open>The discovery page (pages/BrowseUsers): data\<close>

text \<open>
  A \<^verbatim>\<open>UserPreview\<close> is opaque to the page beyond its identity; it is represented by its
  \<^verbatim>\<open>id\<close> string.
\<close>

type_synonym user = string

record BrowseUsersResponse =
  br_users :: "user list"
  br_total_count :: int
  br_page :: int
  br_page_size :: int
  br_total_pages :: int
  br_has_next :: bool
  br_has_previous :: bool

record SearchUsersResponse =
  sr_users :: "user list"
  sr_total_count :: int

text \<open>
  The query objects handed to \<^verbatim>\<open>brain.browse_users\<close> and \<^verbatim>\<open>brain.search_users\<close>. An
  optional key that the page does not set is \<open>None\<close>.
\<close>

record BrowseUsersParams =
  bp_page :: int
  bp_page_size :: int
  bp_skill_filter :: "string option"
  bp_location_filter :: "string option"

record SearchUsersParams =
  sp_q :: string
  sp_limit :: int

datatype request = BrowseReq BrowseUsersParams | SearchReq SearchUsersParams

datatype response = BrowseResponse BrowseUsersResponse | SearchResponse SearchUsersResponse

datatype mode = Browse | Search

datatype error = ServiceError

text \<open>
  The \<^verbatim>\<open>useState\<close> variables of the component as one render sees them. Every handler
  is a closure over one such render: it reads these values and calls the setters, which
  change the state of the next render, never the values the closure holds.
\<close>

record render =
  users :: "user list"
  loading :: bool
  searchQuery :: string
  searchLoading :: bool
  showFilters :: bool
  currentPage :: int
  totalPages :: int
  totalCount :: int
  hasNext :: bool
  hasPrevious :: bool
  skillFilter :: string
  locationFilter :: string

text \<open>The local state of the sidebar (components/SearchFilters).\<close>

record sidebar =
  localSkillFilter :: string
  localLocationFilter :: string

text \<open>
  The page together with its surroundings: the committed state \<open>cur\<close>, the sidebar, the
  one debounce timer (milliseconds left, and the render whose closure its callback holds),
  the log \<open>sent\<close> of every fetch dispatched so far, the positions in that log of the
  fetches that have not settled yet, and the error toasts shown. \<open>accepted\<close> is
  bookkeeping that no handler reads: the response whose continuation ran last.
\<close>

record world =
  cur :: render
  side :: sidebar
  timer :: "(nat \<times> render) option"
  sent :: "request list"
  pending :: "nat list"
  toasts :: "string list"
  accepted :: "response option"

section \<open>The discovery page: handlers\<close>

definition setState :: "(render \<Rightarrow> render) \<Rightarrow> world \<Rightarrow> world" where
  "setState f w = w\<lparr>cur := f (cur w)\<rparr>"

definition setLocal :: "(sidebar \<Rightarrow> sidebar) \<Rightarrow> world \<Rightarrow> world" where
  "setLocal f w = w\<lparr>side := f (side w)\<rparr>"

definition dispatch :: "request \<Rightarrow> world \<Rightarrow> world" where
  "dispatch r w = w\<lparr>sent := sent w @ [r], pending := pending w @ [length (sent w)]\<rparr>"

definition toast_error :: "string \<Rightarrow> world \<Rightarrow> world" where
  "toast_error msg w = w\<lparr>toasts := toasts w @ [msg]\<rparr>"

text \<open>
  \<^verbatim>\<open>browseUsers(page = 1, skill = skillFilter, location = locationFilter)\<close> up to its
  \<^verbatim>\<open>await\<close>. An argument left out or \<^verbatim>\<open>undefined\<close> is \<open>None\<close> and takes its default; the
  filter defaults are the values of the render \<open>c\<close> that created the closure. A string is
  truthy when it is not empty.
\<close>

definition browseUsers ::
  "render \<Rightarrow> int option \<Rightarrow> string option \<Rightarrow> string option \<Rightarrow> world \<Rightarrow> world" where
  "browseUsers c page skill location w =
     (let page' = (case page of None \<Rightarrow> 1 | Some p \<Rightarrow> p);
          skill' = (case skill of None \<Rightarrow> skillFilter c | Some s \<Rightarrow> s);
          location' = (case location of None \<Rightarrow> locationFilter c | Some l \<Rightarrow> l);
          params = \<lparr>bp_page = page', bp_page_size = 12,
                    bp_skill_filter = (if skill' \<noteq> [] then Some skill' else None),
                    bp_location_filter = (if location' \<noteq> [] then Some location' else None)\<rparr>
      in dispatch (BrowseReq params) (setState (\<lambda>u. u\<lparr>loading := True\<rparr>) w))"

text \<open>
  The rest of \<^verbatim>\<open>browseUsers\<close>, run when its fetch settles: the six setters on success,
  the toast in \<^verbatim>\<open>catch\<close>, and \<^verbatim>\<open>setLoading(false)\<close> in \<^verbatim>\<open>finally\<close>. It reads nothing of
  the state and compares nothing with the fetch it belongs to.
\<close>

definition browseUsers_settled :: "error + BrowseUsersResponse \<Rightarrow> world \<Rightarrow> world" where
  "browseUsers_settled r w =
     (case r of
        Inr data \<Rightarrow>
          setState (\<lambda>u. u\<lparr>loading := False\<rparr>)
            (setState (\<lambda>u. u\<lparr>users := br_users data, currentPage := br_page data,
                             totalPages := br_total_pages data,
                             totalCount := br_total_count data, hasNext := br_has_next data,
                             hasPrevious := br_has_previous data\<rparr>)
               (w\<lparr>accepted := Some (BrowseResponse data)\<rparr>))
      | Inl e \<Rightarrow>
          setState (\<lambda>u. u\<lparr>loading := False\<rparr>) (toast_error ''Failed to load users'' w))"

text \<open>
  JavaScript's \<^verbatim>\<open>trim\<close> strips white space and line terminators from both ends. A
  \<open>char\<close> holds one code unit up to \<open>0xFF\<close>; of the code units that \<^verbatim>\<open>trim\<close> strips,
  these are tab, line feed, vertical tab, form feed, carriage return, space and the
  no-break space \<open>0xA0\<close>. The others (\<open>U+1680\<close>, \<open>U+2000\<close> to \<open>U+200A\<close>, \<open>U+2028\<close>,
  \<open>U+2029\<close>, \<open>U+202F\<close>, \<open>U+205F\<close>, \<open>U+3000\<close>, \<open>U+FEFF\<close>) lie beyond a \<open>char\<close>.
\<close>

definition is_space :: "char \<Rightarrow> bool" where
  "is_space ch =
     (ch \<in> set [CHR 0x09, CHR 0x0A, CHR 0x0B, CHR 0x0C, CHR 0x0D, CHR 0x20, CHR 0xA0])"

definition trim :: "string \<Rightarrow> string" where
  "trim s = rev (dropWhile is_space (rev (dropWhile is_space s)))"

text \<open>\<^verbatim>\<open>searchUsers(query)\<close> up to its \<^verbatim>\<open>await\<close>; \<open>c\<close> is the render of its closure.\<close>

definition searchUsers :: "render \<Rightarrow> string \<Rightarrow> world \<Rightarrow> world" where
  "searchUsers c query w =
     (if trim query = [] then browseUsers c (Some 1) None None w
      else dispatch (SearchReq \<lparr>sp_q = query, sp_limit = 20\<rparr>)
             (setState (\<lambda>u. u\<lparr>searchLoading := True\<rparr>) w))"

definition searchUsers_settled :: "error + SearchUsersResponse \<Rightarrow> world \<Rightarrow> world" where
  "searchUsers_settled r w =
     (case r of
        Inr data \<Rightarrow>
          setState (\<lambda>u. u\<lparr>searchLoading := False\<rparr>)
            (setState (\<lambda>u. u\<lparr>users := sr_users data, currentPage := 1, totalPages := 1,
                             totalCount := sr_total_count data, hasNext := False,
                             hasPrevious := False\<rparr>)
               (w\<lparr>accepted := Some (SearchResponse data)\<rparr>))
      | Inl e \<Rightarrow>
          setState (\<lambda>u. u\<lparr>searchLoading := False\<rparr>)
            (toast_error ''Failed to search users'' w))"

definition handlePageChange :: "render \<Rightarrow> int \<Rightarrow> world \<Rightarrow> world" where
  "handlePageChange c page w =
     (if searchQuery c = [] then browseUsers c (Some page) None None w else w)"

text \<open>
  \<^verbatim>\<open>handleFilterChange(filters: { skill?: string; location?: string })\<close>:
  \<^verbatim>\<open>filters.skill || ''\<close> goes to the state, \<^verbatim>\<open>filters.skill\<close> itself to \<^verbatim>\<open>browseUsers\<close>.
\<close>

definition handleFilterChange ::
  "render \<Rightarrow> string option \<Rightarrow> string option \<Rightarrow> world \<Rightarrow> world" where
  "handleFilterChange c skill location w =
     browseUsers c (Some 1) skill location
       (setState (\<lambda>u. u\<lparr>skillFilter := (case skill of None \<Rightarrow> [] | Some s \<Rightarrow> s),
                        locationFilter := (case location of None \<Rightarrow> [] | Some l \<Rightarrow> l),
                        currentPage := 1\<rparr>) w)"

definition handlePopularSkillClick :: "render \<Rightarrow> string \<Rightarrow> world \<Rightarrow> world" where
  "handlePopularSkillClick c skillName w =
     setState (\<lambda>u. u\<lparr>showFilters := False\<rparr>)
       (browseUsers c (Some 1) (Some skillName) (Some (locationFilter c))
          (setState (\<lambda>u. u\<lparr>skillFilter := skillName, currentPage := 1\<rparr>) w))"

text \<open>
  The \<^verbatim>\<open>onClick\<close> of the Clear Filters button in the results header:
  \<^verbatim>\<open>setSkillFilter(''); setLocationFilter(''); setCurrentPage(1); browseUsers(1);\<close>
\<close>

definition clearFiltersOnClick :: "render \<Rightarrow> world \<Rightarrow> world" where
  "clearFiltersOnClick c w =
     browseUsers c (Some 1) None None
       (setState (\<lambda>u. u\<lparr>skillFilter := [], locationFilter := [], currentPage := 1\<rparr>) w)"

text \<open>
  The handlers of the sidebar. \<open>c\<close> is the render of the page that passed
  \<^verbatim>\<open>skillFilter\<close>, \<^verbatim>\<open>locationFilter\<close> and \<^verbatim>\<open>onFilterChange = handleFilterChange\<close> as props,
  \<open>s\<close> the sidebar state its closure holds.
\<close>

definition handleApplyFilters :: "render \<Rightarrow> sidebar \<Rightarrow> world \<Rightarrow> world" where
  "handleApplyFilters c s w =
     handleFilterChange c (Some (localSkillFilter s)) (Some (localLocationFilter s)) w"

definition handleClearFilters :: "render \<Rightarrow> world \<Rightarrow> world" where
  "handleClearFilters c w =
     handleFilterChange c (Some []) (Some [])
       (setLocal (\<lambda>s. s\<lparr>localSkillFilter := [], localLocationFilter := []\<rparr>) w)"

definition SearchFilters_handlePopularSkillClick ::
  "render \<Rightarrow> sidebar \<Rightarrow> string \<Rightarrow> world \<Rightarrow> world" where
  "SearchFilters_handlePopularSkillClick c s skillName w =
     handleFilterChange c (Some skillName) (Some (localLocationFilter s))
       (setLocal (\<lambda>s. s\<lparr>localSkillFilter := skillName\<rparr>) w)"

definition skillBadgeOnClick :: "render \<Rightarrow> world \<Rightarrow> world" where
  "skillBadgeOnClick c w =
     handleFilterChange c (Some []) (Some (locationFilter c))
       (setLocal (\<lambda>s. s\<lparr>localSkillFilter := []\<rparr>) w)"

definition locationBadgeOnClick :: "render \<Rightarrow> world \<Rightarrow> world" where
  "locationBadgeOnClick c w =
     handleFilterChange c (Some (skillFilter c)) (Some [])
       (setLocal (\<lambda>s. s\<lparr>localLocationFilter := []\<rparr>) w)"

section \<open>The discovery page: events\<close>

text \<open>
  Everything happens in response to one event, which runs to completion: an edit of the
  search box, time passing, a click, or a fetch settling. A click runs the handler of the
  committed render. \<open>Elapse d\<close> lets \<open>d\<close> milliseconds pass; the debounce timer fires once
  its 300 milliseconds are over and runs \<^verbatim>\<open>searchUsers(searchQuery)\<close> of the render that
  set it. A settling fetch is named by its position in \<open>sent\<close>.
\<close>

datatype event =
    QueryInput string
  | Elapse nat
  | PageClick int
  | SkillInput string
  | LocationInput string
  | ApplyFilters
  | SidebarClear
  | QuickSkillClick string
  | SkillBadgeClick
  | LocationBadgeClick
  | PopularSkillClick string
  | ClearFiltersClick
  | ToggleFilters
  | BrowseSettled nat "error + BrowseUsersResponse"
  | SearchSettled nat "error + SearchUsersResponse"

fun kind :: "request \<Rightarrow> mode" where
  "kind (BrowseReq p) = Browse"
| "kind (SearchReq p) = Search"

definition awaiting :: "world \<Rightarrow> nat \<Rightarrow> mode \<Rightarrow> bool" where
  "awaiting w i m = (i \<in> set (pending w) \<and> i < length (sent w) \<and> kind (sent w ! i) = m)"

definition settle :: "nat \<Rightarrow> world \<Rightarrow> world" where
  "settle i w = w\<lparr>pending := removeAll i (pending w)\<rparr>"

text \<open>
  The debounce effect, \<^verbatim>\<open>useEffect(..., [searchQuery])\<close>: its cleanup clears the timer of
  the previous run, and it sets a new one whose callback closes over the render it runs in.
\<close>

definition debounceEffect :: "world \<Rightarrow> world" where
  "debounceEffect w = w\<lparr>timer := Some (300, cur w)\<rparr>"

fun step :: "world \<Rightarrow> event \<Rightarrow> world" where
  "step w (QueryInput text) =
     (if text = searchQuery (cur w) then w
      else debounceEffect (setState (\<lambda>u. u\<lparr>searchQuery := text\<rparr>) w))"
| "step w (Elapse d) =
     (case timer w of
        None \<Rightarrow> w
      | Some (left, c) \<Rightarrow>
          if d < left then w\<lparr>timer := Some (left - d, c)\<rparr>
          else searchUsers c (searchQuery c) (w\<lparr>timer := None\<rparr>))"
| "step w (PageClick p) = handlePageChange (cur w) p w"
| "step w (SkillInput text) = setLocal (\<lambda>s. s\<lparr>localSkillFilter := text\<rparr>) w"
| "step w (LocationInput text) = setLocal (\<lambda>s. s\<lparr>localLocationFilter := text\<rparr>) w"
| "step w ApplyFilters = handleApplyFilters (cur w) (side w) w"
| "step w SidebarClear = handleClearFilters (cur w) w"
| "step w (QuickSkillClick skillName) =
     SearchFilters_handlePopularSkillClick (cur w) (side w) skillName w"
| "step w SkillBadgeClick = skillBadgeOnClick (cur w) w"
| "step w LocationBadgeClick = locationBadgeOnClick (cur w) w"
| "step w (PopularSkillClick skillName) = handlePopularSkillClick (cur w) skillName w"
| "step w ClearFiltersClick = clearFiltersOnClick (cur w) w"
| "step w ToggleFilters = setState (\<lambda>u. u\<lparr>showFilters := \<not> showFilters (cur w)\<rparr>) w"
| "step w (BrowseSettled i r) =
     (if awaiting w i Browse then browseUsers_settled r (settle i w) else w)"
| "step w (SearchSettled i r) =
     (if awaiting w i Search then searchUsers_settled r (settle i w) else w)"

fun run :: "world \<Rightarrow> event list \<Rightarrow> world" where
  "run w [] = w"
| "run w (e # es) = run (step w e) es"

text \<open>
  Mounting the component: the \<^verbatim>\<open>useState\<close> defaults, then the debounce effect, then the
  initial load \<^verbatim>\<open>if (!searchQuery) browseUsers()\<close>.
\<close>

definition initial_render :: render where
  "initial_render =
     \<lparr>users = [], loading = False, searchQuery = [], searchLoading = False,
      showFilters = False, currentPage = 1, totalPages = 1, totalCount = 0, hasNext = False,
      hasPrevious = False, skillFilter = [], locationFilter = []\<rparr>"

definition mount :: world where
  "mount =
     (let w0 = \<lparr>cur = initial_render,
                side = \<lparr>localSkillFilter = skillFilter initial_render,
                         localLocationFilter = locationFilter initial_render\<rparr>,
                timer = None, sent = [], pending = [], toasts = [], accepted = None\<rparr>;
          w1 = debounceEffect w0
      in if searchQuery (cur w0) = [] then browseUsers (cur w0) None None None w1 else w1)"

section \<open>The discovery page: what is rendered\<close>

text \<open>
  The results header reads \<^verbatim>\<open>searchQuery ? 'Search Results' : 'Browse Users'\<close>; the page
  strip is rendered under \<^verbatim>\<open>!loading\<close> and \<^verbatim>\<open>!searchQuery && totalPages > 1\<close>.
\<close>

definition resultsHeader :: "render \<Rightarrow> string" where
  "resultsHeader u = (if searchQuery u \<noteq> [] then ''Search Results'' else ''Browse Users'')"

definition displayedMode :: "render \<Rightarrow> mode" where
  "displayedMode u = (if searchQuery u \<noteq> [] then Search else Browse)"

definition paginationRendered :: "render \<Rightarrow> bool" where
  "paginationRendered u = (\<not> loading u \<and> searchQuery u = [] \<and> totalPages u > 1)"

fun page_numbers :: "page_item list \<Rightarrow> int list" where
  "page_numbers [] = []"
| "page_numbers (Page p # items) = p # page_numbers items"
| "page_numbers (Ellipsis # items) = page_numbers items"

text \<open>The pages that the buttons of the strip pass to \<^verbatim>\<open>onPageChange\<close>.\<close>

definition pageButtons :: "render \<Rightarrow> int list" where
  "pageButtons u =
     (if hasPrevious u then [currentPage u - 1] else [])
     @ page_numbers (generatePageNumbers (currentPage u) (totalPages u))
     @ (if hasNext u then [currentPage u + 1] else [])"

definition hasActiveFilters :: "render \<Rightarrow> bool" where
  "hasActiveFilters u = (skillFilter u \<noteq> [] \<or> locationFilter u \<noteq> [])"

text \<open>
  Whether the user interface offers the event in this state: the control is rendered and
  not disabled, or the fetch is in flight. Popular-skill chips come from a fetch of their
  own, outside the page's logic; a chip is taken to exist for every skill name.
\<close>

fun offered :: "world \<Rightarrow> event \<Rightarrow> bool" where
  "offered w (QueryInput text) = (text \<noteq> searchQuery (cur w))"
| "offered w (Elapse d) = True"
| "offered w (PageClick p) = (paginationRendered (cur w) \<and> p \<in> set (pageButtons (cur w)))"
| "offered w (SkillInput text) = True"
| "offered w (LocationInput text) = True"
| "offered w ApplyFilters =
     (\<not> (localSkillFilter (side w) = skillFilter (cur w)
         \<and> localLocationFilter (side w) = locationFilter (cur w)))"
| "offered w SidebarClear = hasActiveFilters (cur w)"
| "offered w (QuickSkillClick skillName) = True"
| "offered w SkillBadgeClick = (skillFilter (cur w) \<noteq> [])"
| "offered w LocationBadgeClick = (locationFilter (cur w) \<noteq> [])"
| "offered w (PopularSkillClick skillName) = True"
| "offered w ClearFiltersClick = hasActiveFilters (cur w)"
| "offered w ToggleFilters = True"
| "offered w (BrowseSettled i r) = awaiting w i Browse"
| "offered w (SearchSettled i r) = awaiting w i Search"

fun feasible :: "world \<Rightarrow> event list \<Rightarrow> bool" where
  "feasible w [] = True"
| "feasible w (e # es) = (offered w e \<and> feasible (step w e) es)"

text \<open>The part of the state that an accepted response sets: the list and its pagination.\<close>

definition resultPage :: "render \<Rightarrow> user list \<times> int \<times> int \<times> int \<times> bool \<times> bool" where
  "resultPage u =
     (users u, totalCount u, currentPage u, totalPages u, hasNext u, hasPrevious u)"

section \<open>Vocabulary of the properties\<close>

text \<open>A filter string as a query parameter: present only when the string is not empty.\<close>

abbreviation param :: "string \<Rightarrow> string option" where
  "param s \<equiv> (if s \<noteq> [] then Some s else None)"

text \<open>
  What the page promises about each fetch it dispatches: page size 12 and no empty filter
  parameter for a Browse fetch, limit 20 and a query that is not blank for a Search fetch.
\<close>

fun wellFormed :: "request \<Rightarrow> bool" where
  "wellFormed (BrowseReq p) =
     (bp_page_size p = 12 \<and> bp_skill_filter p \<noteq> Some [] \<and> bp_location_filter p \<noteq> Some [])"
| "wellFormed (SearchReq s) = (sp_limit s = 20 \<and> trim (sp_q s) \<noteq> [])"

text \<open>
  A burst of typing after a first edit: each further edit comes \<open>d\<close> milliseconds after
  the one before it. \<open>changes prev rest\<close> holds when every gap is below 300 milliseconds
  and every edit changes the text.
\<close>

fun typing :: "(nat \<times> string) list \<Rightarrow> event list" where
  "typing [] = []"
| "typing ((d, text) # rest) = Elapse d # QueryInput text # typing rest"

fun changes :: "string \<Rightarrow> (nat \<times> string) list \<Rightarrow> bool" where
  "changes prev [] = True"
| "changes prev ((d, text) # rest) = (d < 300 \<and> text \<noteq> prev \<and> changes text rest)"

text \<open>The state right after an edit to \<open>q\<close>: the new query, and the timer just set.\<close>

definition typed :: "world \<Rightarrow> string \<Rightarrow> world" where
  "typed w q = w\<lparr>cur := (cur w)\<lparr>searchQuery := q\<rparr>,
                 timer := Some (300, (cur w)\<lparr>searchQuery := q\<rparr>)\<rparr>"

text \<open>The events that are not a filter intent.\<close>

fun keepsFilters :: "event \<Rightarrow> bool" where
  "keepsFilters ApplyFilters = False"
| "keepsFilters SidebarClear = False"
| "keepsFilters (QuickSkillClick skillName) = False"
| "keepsFilters SkillBadgeClick = False"
| "keepsFilters LocationBadgeClick = False"
| "keepsFilters (PopularSkillClick skillName) = False"
| "keepsFilters ClearFiltersClick = False"
| "keepsFilters e = True"

text \<open>
  The list and the pagination fields all stem from one response, the one accepted last;
  only \<open>currentPage\<close> may since have been set to 1 by a filter intent.
\<close>

definition singleResult :: "world \<Rightarrow> bool" where
  "singleResult w =
     (case accepted w of
        None \<Rightarrow> resultPage (cur w) = ([], 0, 1, 1, False, False)
      | Some (BrowseResponse d) \<Rightarrow>
          users (cur w) = br_users d \<and> totalCount (cur w) = br_total_count d
          \<and> totalPages (cur w) = br_total_pages d \<and> hasNext (cur w) = br_has_next d
          \<and> hasPrevious (cur w) = br_has_previous d
          \<and> (currentPage (cur w) = br_page d \<or> currentPage (cur w) = 1)
      | Some (SearchResponse d) \<Rightarrow>
          resultPage (cur w) = (sr_users d, sr_total_count d, 1, 1, False, False))"

definition acceptedMode :: "world \<Rightarrow> mode option" where
  "acceptedMode w =
     (case accepted w of
        None \<Rightarrow> None
      | Some (BrowseResponse d) \<Rightarrow> Some Browse
      | Some (SearchResponse d) \<Rightarrow> Some Search)"

section \<open>Sample responses and runs\<close>

definition page1 :: BrowseUsersResponse where
  "page1 = \<lparr>br_users = [''u1'', ''u2''], br_total_count = 50, br_page = 1,
     br_page_size = 12, br_total_pages = 5, br_has_next = True, br_has_previous = False\<rparr>"

definition page3 :: BrowseUsersResponse where
  "page3 = \<lparr>br_users = [''u5'', ''u6''], br_total_count = 30, br_page = 3,
     br_page_size = 12, br_total_pages = 3, br_has_next = False, br_has_previous = True\<rparr>"

definition designPage1 :: BrowseUsersResponse where
  "designPage1 = \<lparr>br_users = [''d1'', ''d2''], br_total_count = 30, br_page = 1,
     br_page_size = 12, br_total_pages = 3, br_has_next = True, br_has_previous = False\<rparr>"

definition resultsA :: SearchUsersResponse where
  "resultsA = \<lparr>sr_users = [''al''], sr_total_count = 1\<rparr>"

definition resultsB :: SearchUsersResponse where
  "resultsB = \<lparr>sr_users = [''bob'', ''bo''], sr_total_count = 2\<rparr>"

text \<open>
  The page has loaded its first page. The user types \<open>a\<close>, pauses, types \<open>b\<close> and pauses:
  fetch 1 searches for \<open>a\<close>, fetch 2 for \<open>ab\<close>, and both are in flight.
\<close>

definition twoSearches :: "event list" where
  "twoSearches = [BrowseSettled 0 (Inr page1), QueryInput ''a'', Elapse 300,
     QueryInput ''ab'', Elapse 300]"

text \<open>
  The page has loaded its first page and the timer set at mounting has fired and settled.
  The user filters by the skill Design and gets the first of three pages.
\<close>

definition designFilter :: "event list" where
  "designFilter = [BrowseSettled 0 (Inr page1), Elapse 300, BrowseSettled 1 (Inr page1),
     SkillInput ''Design'', ApplyFilters, BrowseSettled 2 (Inr designPage1)]"

text \<open>Then the user goes to page 3 of the Design results.\<close>

definition designPage3 :: "event list" where
  "designPage3 = designFilter @ [PageClick 3, BrowseSettled 3 (Inr page3)]"

text \<open>From there the user searches for \<open>a\<close> and sees the results.\<close>

definition excursion :: "event list" where
  "excursion = [QueryInput ''a'', Elapse 300, SearchSettled 4 (Inr resultsA)]"

section \<open>Facts about the pagination window\<close>

lemma push_range_upto: "push_range i hi pages = pages @ map Page [i..hi]"
proof (induction i hi pages rule: push_range.induct)
  case (1 i hi pages)
  show ?case
  proof (cases "i \<le> hi")
    case True
    then have "[i..hi] = i # [i + 1..hi]" by (simp add: upto_rec1)
    with True 1 show ?thesis by (simp add: push_range.simps [of i hi pages])
  next
    case False
    then show ?thesis by (simp add: push_range.simps [of i hi pages])
  qed
qed

lemma push_range_gt1_upto:
  "push_range_gt1 i hi pages = pages @ map Page (filter (\<lambda>k. k > 1) [i..hi])"
proof (induction i hi pages rule: push_range_gt1.induct)
  case (1 i hi pages)
  show ?case
  proof (cases "i \<le> hi")
    case True
    then have "[i..hi] = i # [i + 1..hi]" by (simp add: upto_rec1)
    with True 1 show ?thesis by (simp add: push_range_gt1.simps [of i hi pages])
  next
    case False
    then show ?thesis by (simp add: push_range_gt1.simps [of i hi pages])
  qed
qed

lemma generatePageNumbers_small:
  "tp \<le> 5 \<Longrightarrow> generatePageNumbers cp tp = map Page [1..tp]"
  by (simp add: generatePageNumbers_def maxVisiblePages_def push_range_upto)

lemma generatePageNumbers_first:
  "5 < tp \<Longrightarrow> Page 1 \<in> set (generatePageNumbers cp tp)"
  by (simp add: generatePageNumbers_def maxVisiblePages_def push_range_upto push_range_gt1_upto)

lemma generatePageNumbers_last:
  "5 < tp \<Longrightarrow> Page tp \<in> set (generatePageNumbers cp tp)"
  by (simp add: generatePageNumbers_def maxVisiblePages_def push_range_upto push_range_gt1_upto)

lemma generatePageNumbers_examples:
  "generatePageNumbers 1 10 = [Page 1, Page 2, Page 3, Page 4, Ellipsis, Page 10]"
  "generatePageNumbers 5 10 = [Page 1, Ellipsis, Page 4, Page 5, Page 6, Ellipsis, Page 10]"
  "generatePageNumbers 10 10 = [Page 1, Ellipsis, Page 7, Page 8, Page 9, Page 10]"
  "generatePageNumbers cp 3 = [Page 1, Page 2, Page 3]"
proof -
  have u: "[1..3] = [1, 2, 3::int]" "[2..4] = [2, 3, 4::int]" "[4..6] = [4, 5, 6::int]"
    "[7..10] = [7, 8, 9, 10::int]"
    by code_simp+
  show "generatePageNumbers 1 10 = [Page 1, Page 2, Page 3, Page 4, Ellipsis, Page 10]"
    by (simp add: generatePageNumbers_def maxVisiblePages_def push_range_upto u)
  show "generatePageNumbers 5 10 = [Page 1, Ellipsis, Page 4, Page 5, Page 6, Ellipsis, Page 10]"
    by (simp add: generatePageNumbers_def maxVisiblePages_def push_range_upto u)
  show "generatePageNumbers 10 10 = [Page 1, Ellipsis, Page 7, Page 8, Page 9, Page 10]"
    by (simp add: generatePageNumbers_def maxVisiblePages_def push_range_gt1_upto u)
  show "generatePageNumbers cp 3 = [Page 1, Page 2, Page 3]"
    by (simp add: generatePageNumbers_def maxVisiblePages_def push_range_upto u)
qed

text \<open>
  C5. The page strip is \<open>[1,2,3,4,ellipsis,10]\<close> at page 1 of 10,
  \<open>[1,ellipsis,4,5,6,ellipsis,10]\<close> at page 5 of 10, \<open>[1,ellipsis,7,8,9,10]\<close> at page 10
  of 10 and \<open>[1,2,3]\<close>, without an ellipsis, for three pages. In general every total of at
  most five pages shows exactly the page numbers \<open>1..totalPages\<close>, and every larger total
  shows page 1 and the last page.
\<close>

theorem C5_pagination_window:
  "generatePageNumbers 1 10 = [Page 1, Page 2, Page 3, Page 4, Ellipsis, Page 10]
   \<and> generatePageNumbers 5 10 = [Page 1, Ellipsis, Page 4, Page 5, Page 6, Ellipsis, Page 10]
   \<and> generatePageNumbers 10 10 = [Page 1, Ellipsis, Page 7, Page 8, Page 9, Page 10]
   \<and> (\<forall>cp. generatePageNumbers cp 3 = [Page 1, Page 2, Page 3])
   \<and> (\<forall>cp tp. tp \<le> 5 \<longrightarrow>
         generatePageNumbers cp tp = map Page [1..tp])
   \<and> (\<forall>cp tp. 5 < tp \<longrightarrow>
         Page 1 \<in> set (generatePageNumbers cp tp)
         \<and> Page tp \<in> set (generatePageNumbers cp tp))"
  using generatePageNumbers_examples generatePageNumbers_small generatePageNumbers_first
    generatePageNumbers_last
  by blast

theorem C5_pagination_window_witness:
  "(4::int) \<le> 5 \<and> generatePageNumbers 2 4 = map Page [1..4]
   \<and> (5::int) < 20 \<and> Page 1 \<in> set (generatePageNumbers 7 20)
   \<and> Page 20 \<in> set (generatePageNumbers 7 20)"
proof -
  have small: "(4::int) \<le> 5" and large: "(5::int) < 20" by simp_all
  from C5_pagination_window have
    a: "\<forall>cp tp. tp \<le> 5 \<longrightarrow>
          generatePageNumbers cp tp = map Page [1..tp]" and
    b: "\<forall>cp tp. 5 < tp \<longrightarrow>
          Page 1 \<in> set (generatePageNumbers cp tp)
          \<and> Page tp \<in> set (generatePageNumbers cp tp)"
    by blast+
  from a small have "generatePageNumbers 2 4 = map Page [1..4]" by blast
  moreover from b large have "Page 1 \<in> set (generatePageNumbers 7 20)
    \<and> Page 20 \<in> set (generatePageNumbers 7 20)" by blast
  ultimately show ?thesis using small large by blast
qed

section \<open>Facts about the handlers\<close>

lemmas handler_defs = setState_def setLocal_def dispatch_def toast_error_def browseUsers_def
  browseUsers_settled_def searchUsers_def searchUsers_settled_def handlePageChange_def
  handleFilterChange_def handlePopularSkillClick_def clearFiltersOnClick_def
  handleApplyFilters_def handleClearFilters_def SearchFilters_handlePopularSkillClick_def
  skillBadgeOnClick_def locationBadgeOnClick_def settle_def debounceEffect_def

lemmas sample_defs = page1_def page3_def designPage1_def resultsA_def resultsB_def
  twoSearches_def designFilter_def designPage3_def excursion_def

lemmas eval_defs = mount_def initial_render_def handler_defs Let_def awaiting_def trim_def
  is_space_def resultPage_def paginationRendered_def hasActiveFilters_def pageButtons_def
  resultsHeader_def displayedMode_def acceptedMode_def

lemma page_strips:
  "generatePageNumbers 1 3 = [Page 1, Page 2, Page 3]"
  "generatePageNumbers 1 5 = [Page 1, Page 2, Page 3, Page 4, Page 5]"
proof -
  have u: "[1..3] = [1, 2, 3::int]" "[1..5] = [1, 2, 3, 4, 5::int]"
    by code_simp+
  show "generatePageNumbers 1 3 = [Page 1, Page 2, Page 3]"
    by (simp add: generatePageNumbers_def maxVisiblePages_def push_range_upto u)
  show "generatePageNumbers 1 5 = [Page 1, Page 2, Page 3, Page 4, Page 5]"
    by (simp add: generatePageNumbers_def maxVisiblePages_def push_range_upto u)
qed

lemma run_append: "run w (es @ fs) = run (run w es) fs"
  by (induction es arbitrary: w) simp_all

lemma sent_browseUsers:
  "sent (browseUsers c page skill location w) =
     sent w @ [BrowseReq \<lparr>bp_page = (case page of None \<Rightarrow> 1 | Some p \<Rightarrow> p),
       bp_page_size = 12,
       bp_skill_filter = param (case skill of None \<Rightarrow> skillFilter c | Some s \<Rightarrow> s),
       bp_location_filter =
         param (case location of None \<Rightarrow> locationFilter c | Some l \<Rightarrow> l)\<rparr>]"
  by (simp add: browseUsers_def dispatch_def setState_def Let_def)

lemma sent_searchUsers:
  "trim q \<noteq> [] \<Longrightarrow>
     sent (searchUsers c q w) = sent w @ [SearchReq \<lparr>sp_q = q, sp_limit = 20\<rparr>]"
  by (simp add: searchUsers_def dispatch_def setState_def)

lemma sent_step:
  "sent (step w e) = sent w \<or> (\<exists>r. wellFormed r \<and> sent (step w e) = sent w @ [r])"
  by (cases e) (auto simp: handler_defs Let_def split: option.splits sum.splits prod.splits)

lemma wellFormed_step:
  "\<forall>r \<in> set (sent w). wellFormed r \<Longrightarrow> \<forall>r \<in> set (sent (step w e)). wellFormed r"
  using sent_step [of w e] by auto

lemma wellFormed_run:
  "\<forall>r \<in> set (sent w). wellFormed r \<Longrightarrow> \<forall>r \<in> set (sent (run w es)). wellFormed r"
proof (induction es arbitrary: w)
  case Nil
  then show ?case by simp
next
  case (Cons e es)
  then show ?case using wellFormed_step [of w e] by simp
qed

lemma wellFormed_mount: "\<forall>r \<in> set (sent mount). wellFormed r"
  by (simp add: mount_def initial_render_def handler_defs Let_def)

subsection \<open>Typing and the debounce timer\<close>

lemma step_QueryInput_typed:
  "q \<noteq> searchQuery (cur w) \<Longrightarrow> step w (QueryInput q) = typed w q"
  by (simp add: typed_def setState_def debounceEffect_def)

lemma typed_again:
  "d < 300 \<Longrightarrow> t \<noteq> q \<Longrightarrow> run (typed w q) [Elapse d, QueryInput t] = typed w t"
  by (simp add: typed_def setState_def debounceEffect_def)

lemma run_typing:
  "changes q rest \<Longrightarrow> run (typed w q) (typing rest) = typed w (last (q # map snd rest))"
proof (induction rest arbitrary: q)
  case Nil
  then show ?case by simp
next
  case (Cons a rest)
  obtain d t where a: "a = (d, t)" by (cases a)
  with Cons.prems have d: "d < 300" and t: "t \<noteq> q" and rest: "changes t rest"
    by simp_all
  have "run (typed w q) (typing (a # rest)) =
          run (run (typed w q) [Elapse d, QueryInput t]) (typing rest)"
    using a by simp
  also have "\<dots> = run (typed w t) (typing rest)"
    using typed_again [OF d t] by simp
  also have "\<dots> = typed w (last (t # map snd rest))"
    using Cons.IH [OF rest] .
  finally show ?case using a by simp
qed

lemma burst:
  assumes "q1 \<noteq> searchQuery (cur w)" and "changes q1 rest"
  shows "run w (QueryInput q1 # typing rest) = typed w (last (q1 # map snd rest))"
  using assms by (simp add: step_QueryInput_typed run_typing del: step.simps)

lemma typed_sent: "sent (typed w q) = sent w"
  by (simp add: typed_def)

lemma typed_wait: "d < 300 \<Longrightarrow> sent (step (typed w q) (Elapse d)) = sent w"
  by (simp add: typed_def)

lemma typed_fire:
  "300 \<le> d \<Longrightarrow> sent (step (typed w q) (Elapse d)) =
     sent w @ [if trim q = [] then BrowseReq \<lparr>bp_page = 1, bp_page_size = 12,
                 bp_skill_filter = param (skillFilter (cur w)),
                 bp_location_filter = param (locationFilter (cur w))\<rparr>
               else SearchReq \<lparr>sp_q = q, sp_limit = 20\<rparr>]"
  "300 \<le> d \<Longrightarrow> timer (step (typed w q) (Elapse d)) = None"
  by (simp_all add: typed_def searchUsers_def dispatch_def setState_def browseUsers_def
      Let_def)

lemma idle: "timer w = None \<Longrightarrow> step w (Elapse d) = w"
  by simp

subsection \<open>Filters across events\<close>

lemma keepsFilters_step:
  "keepsFilters e \<Longrightarrow> skillFilter (cur (step w e)) = skillFilter (cur w)
     \<and> locationFilter (cur (step w e)) = locationFilter (cur w)"
  by (cases e) (auto simp: handler_defs Let_def split: option.splits sum.splits prod.splits)

lemma keepsFilters_run:
  "list_all keepsFilters es \<Longrightarrow> skillFilter (cur (run w es)) = skillFilter (cur w)
     \<and> locationFilter (cur (run w es)) = locationFilter (cur w)"
proof (induction es arbitrary: w)
  case Nil
  then show ?case by simp
next
  case (Cons e es)
  then show ?case using keepsFilters_step [of e w] by simp
qed

lemma filter_intent_step:
  "\<not> keepsFilters e \<Longrightarrow>
     (\<exists>ps. sent (step w e) = sent w @ [BrowseReq ps] \<and> bp_page ps = 1
        \<and> bp_page_size ps = 12)
     \<and> timer (step w e) = timer w
     \<and> awaiting (step w e) (length (sent w)) Browse
     \<and> users (cur (step w e)) = users (cur w)
     \<and> totalCount (cur (step w e)) = totalCount (cur w)
     \<and> totalPages (cur (step w e)) = totalPages (cur w)
     \<and> hasNext (cur (step w e)) = hasNext (cur w)
     \<and> hasPrevious (cur (step w e)) = hasPrevious (cur w)
     \<and> currentPage (cur (step w e)) = 1
     \<and> toasts (step w e) = toasts w"
  by (cases e) (simp_all add: handler_defs awaiting_def Let_def)

lemma sent_searchUsers_blank:
  "trim q = [] \<Longrightarrow>
     sent (searchUsers c q w) =
       sent w @ [BrowseReq \<lparr>bp_page = 1, bp_page_size = 12,
                   bp_skill_filter = param (skillFilter c),
                   bp_location_filter = param (locationFilter c)\<rparr>]"
  by (simp add: searchUsers_def browseUsers_def dispatch_def setState_def Let_def)

lemma trim_no_break_space: "trim [CHR 0xA0] = []"
  by (simp add: trim_def is_space_def)

subsection \<open>Settling fetches\<close>

lemma browse_accept:
  "awaiting w i Browse \<Longrightarrow>
     resultPage (cur (step w (BrowseSettled i (Inr d)))) =
       (br_users d, br_total_count d, br_page d, br_total_pages d, br_has_next d,
        br_has_previous d)
     \<and> accepted (step w (BrowseSettled i (Inr d))) = Some (BrowseResponse d)
     \<and> \<not> loading (cur (step w (BrowseSettled i (Inr d))))"
  by (simp add: resultPage_def handler_defs)

lemma search_accept:
  "awaiting w i Search \<Longrightarrow>
     resultPage (cur (step w (SearchSettled i (Inr d)))) =
       (sr_users d, sr_total_count d, 1, 1, False, False)
     \<and> accepted (step w (SearchSettled i (Inr d))) = Some (SearchResponse d)
     \<and> \<not> searchLoading (cur (step w (SearchSettled i (Inr d))))"
  by (simp add: resultPage_def handler_defs)

lemma awaiting_other:
  "a \<noteq> b \<Longrightarrow> awaiting w a m \<Longrightarrow> awaiting (step w (BrowseSettled b r)) a m"
  "a \<noteq> b \<Longrightarrow> awaiting w a m \<Longrightarrow> awaiting (step w (SearchSettled b s)) a m"
  by (auto simp: awaiting_def handler_defs split: sum.splits)

lemma browse_failure:
  "awaiting w i Browse \<Longrightarrow>
     resultPage (cur (step w (BrowseSettled i (Inl e)))) = resultPage (cur w)
     \<and> toasts (step w (BrowseSettled i (Inl e))) = toasts w @ [''Failed to load users'']
     \<and> \<not> loading (cur (step w (BrowseSettled i (Inl e))))
     \<and> sent (step w (BrowseSettled i (Inl e))) = sent w
     \<and> timer (step w (BrowseSettled i (Inl e))) = timer w
     \<and> searchQuery (cur (step w (BrowseSettled i (Inl e)))) = searchQuery (cur w)
     \<and> skillFilter (cur (step w (BrowseSettled i (Inl e)))) = skillFilter (cur w)
     \<and> locationFilter (cur (step w (BrowseSettled i (Inl e)))) = locationFilter (cur w)"
  by (simp add: resultPage_def handler_defs)

lemma search_failure:
  "awaiting w i Search \<Longrightarrow>
     resultPage (cur (step w (SearchSettled i (Inl e)))) = resultPage (cur w)
     \<and> toasts (step w (SearchSettled i (Inl e))) = toasts w @ [''Failed to search users'']
     \<and> \<not> searchLoading (cur (step w (SearchSettled i (Inl e))))
     \<and> sent (step w (SearchSettled i (Inl e))) = sent w
     \<and> timer (step w (SearchSettled i (Inl e))) = timer w"
  by (simp add: resultPage_def handler_defs)

lemma page_click_browse:
  "searchQuery (cur w) = [] \<Longrightarrow>
     sent (step w (PageClick p)) =
       sent w @ [BrowseReq \<lparr>bp_page = p, bp_page_size = 12,
                   bp_skill_filter = param (skillFilter (cur w)),
                   bp_location_filter = param (locationFilter (cur w))\<rparr>]
     \<and> awaiting (step w (PageClick p)) (length (sent w)) Browse
     \<and> resultPage (cur (step w (PageClick p))) = resultPage (cur w)
     \<and> toasts (step w (PageClick p)) = toasts w"
  by (simp add: handlePageChange_def awaiting_def resultPage_def browseUsers_def
      dispatch_def setState_def Let_def)

subsection \<open>One result at a time\<close>

lemma singleResult_step: "singleResult w \<Longrightarrow> singleResult (step w e)"
  by (cases e)
    (auto simp: singleResult_def resultPage_def handler_defs Let_def
      split: option.splits sum.splits prod.splits response.splits)

lemma singleResult_run: "singleResult w \<Longrightarrow> singleResult (run w es)"
  by (induction es arbitrary: w) (simp_all add: singleResult_step del: step.simps)

lemma singleResult_mount: "singleResult mount"
  by (simp add: singleResult_def resultPage_def mount_def initial_render_def handler_defs
      Let_def)

lemma pagination_needs_browse:
  "singleResult w \<Longrightarrow> paginationRendered (cur w) \<Longrightarrow> acceptedMode w = Some Browse"
  by (auto simp: singleResult_def paginationRendered_def acceptedMode_def resultPage_def
      split: option.splits response.splits)

lemma search_result_fixed:
  "singleResult w \<Longrightarrow> acceptedMode w = Some Search \<Longrightarrow>
     currentPage (cur w) = 1 \<and> totalPages (cur w) = 1 \<and> \<not> hasNext (cur w)
     \<and> \<not> hasPrevious (cur w)"
  by (auto simp: singleResult_def acceptedMode_def resultPage_def
      split: option.splits response.splits)

section \<open>Token discipline (C1)\<close>

text \<open>
  C1 says that when fetch A is issued before fetch B for the same mode and B's response
  has been accepted, a later completion of A is discarded and never overwrites the user
  list, the pagination fields and the counts set by B. The page keeps no token: in the run
  below the search for \<open>a\<close> (fetch 1) is issued before the search for \<open>ab\<close> (fetch 2),
  the response to fetch 2 is accepted, and the response to fetch 1, arriving afterwards,
  replaces its results while the search box still reads \<open>ab\<close>.
\<close>

theorem C1_stale_search_overwrites:
  "feasible mount
     (twoSearches @ [SearchSettled 2 (Inr resultsB), SearchSettled 1 (Inr resultsA)])
   \<and> sent (run mount twoSearches) ! 1 = SearchReq \<lparr>sp_q = ''a'', sp_limit = 20\<rparr>
   \<and> sent (run mount twoSearches) ! 2 = SearchReq \<lparr>sp_q = ''ab'', sp_limit = 20\<rparr>
   \<and> accepted (run mount (twoSearches @ [SearchSettled 2 (Inr resultsB)]))
       = Some (SearchResponse resultsB)
   \<and> users (cur (run mount (twoSearches @ [SearchSettled 2 (Inr resultsB)])))
       = [''bob'', ''bo'']
   \<and> users (cur (run mount
        (twoSearches @ [SearchSettled 2 (Inr resultsB), SearchSettled 1 (Inr resultsA)])))
       = [''al'']
   \<and> resultPage (cur (run mount
        (twoSearches @ [SearchSettled 2 (Inr resultsB), SearchSettled 1 (Inr resultsA)])))
       \<noteq> resultPage (cur (run mount (twoSearches @ [SearchSettled 2 (Inr resultsB)])))"
  by (simp add: sample_defs eval_defs)

text \<open>
  C1, as the page behaves: responses are applied in the order in which they complete.
  When fetch A is issued before fetch B for the same mode, both are in flight, B's
  response is accepted and A's response arrives afterwards, the user list, the counts and
  the pagination fields are those of A's response (for a search, with the fixed pagination
  values): the last completion wins.
\<close>

theorem C1_last_completion_wins:
  "(a < b \<and> awaiting w a Browse \<and> awaiting w b Browse \<longrightarrow>
      resultPage (cur (run w [BrowseSettled b (Inr rb), BrowseSettled a (Inr ra)])) =
        (br_users ra, br_total_count ra, br_page ra, br_total_pages ra, br_has_next ra,
         br_has_previous ra))
   \<and> (a < b \<and> awaiting w a Search \<and> awaiting w b Search \<longrightarrow>
      resultPage (cur (run w [SearchSettled b (Inr sb), SearchSettled a (Inr sa)])) =
        (sr_users sa, sr_total_count sa, 1, 1, False, False))"
proof (intro conjI impI)
  assume "a < b \<and> awaiting w a Browse \<and> awaiting w b Browse"
  then have "awaiting (step w (BrowseSettled b (Inr rb))) a Browse"
    using awaiting_other(1) [of a b w Browse] by simp
  then show "resultPage (cur (run w [BrowseSettled b (Inr rb), BrowseSettled a (Inr ra)])) =
        (br_users ra, br_total_count ra, br_page ra, br_total_pages ra, br_has_next ra,
         br_has_previous ra)"
    using browse_accept by (simp del: step.simps)
next
  assume "a < b \<and> awaiting w a Search \<and> awaiting w b Search"
  then have "awaiting (step w (SearchSettled b (Inr sb))) a Search"
    using awaiting_other(2) [of a b w Search] by simp
  then show "resultPage (cur (run w [SearchSettled b (Inr sb), SearchSettled a (Inr sa)])) =
        (sr_users sa, sr_total_count sa, 1, 1, False, False)"
    using search_accept by (simp del: step.simps)
qed

theorem C1_last_completion_wins_witness:
  "(0::nat) < 1
   \<and> awaiting (run mount [SkillInput ''Design'', ApplyFilters]) 0 Browse
   \<and> awaiting (run mount [SkillInput ''Design'', ApplyFilters]) 1 Browse
   \<and> resultPage (cur (run (run mount [SkillInput ''Design'', ApplyFilters])
        [BrowseSettled 1 (Inr designPage1), BrowseSettled 0 (Inr page1)]))
       = ([''u1'', ''u2''], 50, 1, 5, True, False)
   \<and> (1::nat) < 2
   \<and> awaiting (run mount twoSearches) 1 Search
   \<and> awaiting (run mount twoSearches) 2 Search
   \<and> resultPage (cur (run (run mount twoSearches)
        [SearchSettled 2 (Inr resultsB), SearchSettled 1 (Inr resultsA)]))
       = ([''al''], 1, 1, 1, False, False)"
proof -
  let ?w = "run mount [SkillInput ''Design'', ApplyFilters]"
  let ?v = "run mount twoSearches"
  have b: "(0::nat) < 1 \<and> awaiting ?w 0 Browse \<and> awaiting ?w 1 Browse"
    by (simp add: eval_defs)
  have s: "(1::nat) < 2 \<and> awaiting ?v 1 Search \<and> awaiting ?v 2 Search"
    by (simp add: sample_defs eval_defs)
  note inst = C1_last_completion_wins
  from b inst [of 0 1 ?w designPage1 page1]
  have "resultPage (cur (run ?w [BrowseSettled 1 (Inr designPage1),
          BrowseSettled 0 (Inr page1)])) =
        (br_users page1, br_total_count page1, br_page page1, br_total_pages page1,
         br_has_next page1, br_has_previous page1)"
    by blast
  then have r1: "resultPage (cur (run ?w [BrowseSettled 1 (Inr designPage1),
          BrowseSettled 0 (Inr page1)])) = ([''u1'', ''u2''], 50, 1, 5, True, False)"
    by (simp add: page1_def del: run.simps)
  from s inst [of 1 2 ?v _ _ resultsB resultsA]
  have "resultPage (cur (run ?v [SearchSettled 2 (Inr resultsB),
          SearchSettled 1 (Inr resultsA)])) =
        (sr_users resultsA, sr_total_count resultsA, 1, 1, False, False)"
    by blast
  then have r2: "resultPage (cur (run ?v [SearchSettled 2 (Inr resultsB),
          SearchSettled 1 (Inr resultsA)])) = ([''al''], 1, 1, 1, False, False)"
    by (simp add: resultsA_def del: run.simps)
  show ?thesis using b s r1 r2 by blast
qed

section \<open>Debounce (C2)\<close>

text \<open>
  C2. After a burst of changes of the query string, each less than 300 milliseconds after
  the one before, no fetch has been dispatched; none is dispatched while less than 300
  milliseconds have passed since the last change; when 300 milliseconds have passed
  exactly one fetch is dispatched, decided by the final query value (the search for it,
  or the Browse fetch of page 1 when it is blank), and nothing more follows later. A
  filter change (\<^verbatim>\<open>handleFilterChange\<close>, here also through the Apply button of the
  sidebar), a popular-skill click and a page click while the query is empty (so every
  page click that the page strip offers) dispatch their Browse fetch in the same step,
  with no delay; every filter intent of the page and of the sidebar dispatches a Browse
  fetch of page 1 in its own step and leaves the timer alone.
\<close>

theorem C2_debounce:
  "(q1 \<noteq> searchQuery (cur w) \<and> changes q1 rest \<longrightarrow>
      sent (run w (QueryInput q1 # typing rest)) = sent w
      \<and> (\<forall>d<300. sent (run w (QueryInput q1 # typing rest @ [Elapse d])) = sent w)
      \<and> (\<forall>d'. sent (run w (QueryInput q1 # typing rest @ [Elapse 300, Elapse d'])) =
           sent (run w (QueryInput q1 # typing rest @ [Elapse 300])))
      \<and> sent (run w (QueryInput q1 # typing rest @ [Elapse 300])) =
          sent w @ [if trim (last (q1 # map snd rest)) = []
                    then BrowseReq \<lparr>bp_page = 1, bp_page_size = 12,
                           bp_skill_filter = param (skillFilter (cur w)),
                           bp_location_filter = param (locationFilter (cur w))\<rparr>
                    else SearchReq \<lparr>sp_q = last (q1 # map snd rest), sp_limit = 20\<rparr>])
   \<and> sent (handleFilterChange c skill location w) =
        sent w @ [BrowseReq \<lparr>bp_page = 1, bp_page_size = 12,
                    bp_skill_filter =
                      param (case skill of None \<Rightarrow> skillFilter c | Some s \<Rightarrow> s),
                    bp_location_filter =
                      param (case location of None \<Rightarrow> locationFilter c | Some l \<Rightarrow> l)\<rparr>]
   \<and> sent (step w ApplyFilters) =
        sent w @ [BrowseReq \<lparr>bp_page = 1, bp_page_size = 12,
                    bp_skill_filter = param (localSkillFilter (side w)),
                    bp_location_filter = param (localLocationFilter (side w))\<rparr>]
   \<and> (searchQuery (cur w) = [] \<longrightarrow>
        sent (step w (PageClick p)) =
          sent w @ [BrowseReq \<lparr>bp_page = p, bp_page_size = 12,
                      bp_skill_filter = param (skillFilter (cur w)),
                      bp_location_filter = param (locationFilter (cur w))\<rparr>])
   \<and> (offered w (PageClick p) \<longrightarrow>
        sent (step w (PageClick p)) =
          sent w @ [BrowseReq \<lparr>bp_page = p, bp_page_size = 12,
                      bp_skill_filter = param (skillFilter (cur w)),
                      bp_location_filter = param (locationFilter (cur w))\<rparr>])
   \<and> sent (handlePopularSkillClick c skillName w) =
        sent w @ [BrowseReq \<lparr>bp_page = 1, bp_page_size = 12,
                    bp_skill_filter = param skillName,
                    bp_location_filter = param (locationFilter c)\<rparr>]
   \<and> (\<not> keepsFilters e \<longrightarrow>
        (\<exists>ps. sent (step w e) = sent w @ [BrowseReq ps] \<and> bp_page ps = 1
           \<and> bp_page_size ps = 12)
        \<and> timer (step w e) = timer w)"
proof (intro conjI impI allI)
  assume h: "q1 \<noteq> searchQuery (cur w) \<and> changes q1 rest"
  let ?q = "last (q1 # map snd rest)"
  have b: "run w (QueryInput q1 # typing rest) = typed w ?q"
    using h burst by blast
  have after: "run w (QueryInput q1 # typing rest @ es) = run (typed w ?q) es" for es
    using b run_append [of w "QueryInput q1 # typing rest" es] by simp
  show "sent (run w (QueryInput q1 # typing rest)) = sent w"
    using b by (simp add: typed_sent del: run.simps)
  show "sent (run w (QueryInput q1 # typing rest @ [Elapse 300])) =
          sent w @ [if trim ?q = []
                    then BrowseReq \<lparr>bp_page = 1, bp_page_size = 12,
                           bp_skill_filter = param (skillFilter (cur w)),
                           bp_location_filter = param (locationFilter (cur w))\<rparr>
                    else SearchReq \<lparr>sp_q = ?q, sp_limit = 20\<rparr>]"
    using after [of "[Elapse 300]"] typed_fire(1) [of 300 w ?q]
    by (simp del: step.simps)
  show "sent (run w (QueryInput q1 # typing rest @ [Elapse 300, Elapse d'])) =
          sent (run w (QueryInput q1 # typing rest @ [Elapse 300]))" for d'
    using after [of "[Elapse 300, Elapse d']"] after [of "[Elapse 300]"]
      typed_fire(2) [of 300 w ?q] idle [of "step (typed w ?q) (Elapse 300)" d']
    by (simp del: step.simps)
  show "sent (run w (QueryInput q1 # typing rest @ [Elapse d])) = sent w" if "d < 300" for d
    using that after [of "[Elapse d]"] typed_wait [of d w ?q] by (simp del: step.simps)
next
  show "sent (handleFilterChange c skill location w) =
        sent w @ [BrowseReq \<lparr>bp_page = 1, bp_page_size = 12,
                    bp_skill_filter =
                      param (case skill of None \<Rightarrow> skillFilter c | Some s \<Rightarrow> s),
                    bp_location_filter =
                      param (case location of None \<Rightarrow> locationFilter c | Some l \<Rightarrow> l)\<rparr>]"
    by (simp add: handleFilterChange_def sent_browseUsers setState_def)
next
  show "sent (step w ApplyFilters) =
        sent w @ [BrowseReq \<lparr>bp_page = 1, bp_page_size = 12,
                    bp_skill_filter = param (localSkillFilter (side w)),
                    bp_location_filter = param (localLocationFilter (side w))\<rparr>]"
    by (simp add: handleApplyFilters_def handleFilterChange_def sent_browseUsers
        setState_def)
next
  assume "searchQuery (cur w) = []"
  then show "sent (step w (PageClick p)) =
          sent w @ [BrowseReq \<lparr>bp_page = p, bp_page_size = 12,
                      bp_skill_filter = param (skillFilter (cur w)),
                      bp_location_filter = param (locationFilter (cur w))\<rparr>]"
    by (simp add: handlePageChange_def sent_browseUsers)
next
  assume "offered w (PageClick p)"
  then have "searchQuery (cur w) = []"
    by (simp add: paginationRendered_def)
  then show "sent (step w (PageClick p)) =
          sent w @ [BrowseReq \<lparr>bp_page = p, bp_page_size = 12,
                      bp_skill_filter = param (skillFilter (cur w)),
                      bp_location_filter = param (locationFilter (cur w))\<rparr>]"
    by (simp add: handlePageChange_def sent_browseUsers)
next
  show "sent (handlePopularSkillClick c skillName w) =
        sent w @ [BrowseReq \<lparr>bp_page = 1, bp_page_size = 12,
                    bp_skill_filter = param skillName,
                    bp_location_filter = param (locationFilter c)\<rparr>]"
    by (simp add: handlePopularSkillClick_def sent_browseUsers setState_def)
next
  assume k: "\<not> keepsFilters e"
  from filter_intent_step [OF k, of w]
  show "\<exists>ps. sent (step w e) = sent w @ [BrowseReq ps] \<and> bp_page ps = 1
          \<and> bp_page_size ps = 12"
    and "timer (step w e) = timer w"
    by blast+
qed

theorem C2_debounce_witness:
  "''d'' \<noteq> searchQuery (cur (run mount [BrowseSettled 0 (Inr page1)]))
   \<and> changes ''d'' [(100, ''de''), (100, ''des'')]
   \<and> (299::nat) < 300
   \<and> sent (run (run mount [BrowseSettled 0 (Inr page1)])
        (QueryInput ''d'' # typing [(100, ''de''), (100, ''des'')] @ [Elapse 299]))
       = sent (run mount [BrowseSettled 0 (Inr page1)])
   \<and> sent (run (run mount [BrowseSettled 0 (Inr page1)])
        (QueryInput ''d'' # typing [(100, ''de''), (100, ''des'')] @ [Elapse 300]))
       = sent (run mount [BrowseSettled 0 (Inr page1)])
           @ [SearchReq \<lparr>sp_q = ''des'', sp_limit = 20\<rparr>]
   \<and> ''x'' \<noteq> searchQuery (cur (run mount [BrowseSettled 0 (Inr page1)]))
   \<and> changes ''x'' [(50, [CHR 0xA0])]
   \<and> sent (run (run mount [BrowseSettled 0 (Inr page1)])
        (QueryInput ''x'' # typing [(50, [CHR 0xA0])] @ [Elapse 300]))
       = sent (run mount [BrowseSettled 0 (Inr page1)])
           @ [BrowseReq \<lparr>bp_page = 1, bp_page_size = 12, bp_skill_filter = None,
                bp_location_filter = None\<rparr>]
   \<and> searchQuery (cur (run mount [BrowseSettled 0 (Inr page1)])) = []
   \<and> offered (run mount [BrowseSettled 0 (Inr page1)]) (PageClick 2)
   \<and> sent (step (run mount [BrowseSettled 0 (Inr page1)]) (PageClick 2))
       = sent (run mount [BrowseSettled 0 (Inr page1)])
           @ [BrowseReq \<lparr>bp_page = 2, bp_page_size = 12, bp_skill_filter = None,
                bp_location_filter = None\<rparr>]
   \<and> \<not> keepsFilters ClearFiltersClick
   \<and> (\<exists>ps. sent (step (run mount designFilter) ClearFiltersClick)
               = sent (run mount designFilter) @ [BrowseReq ps]
            \<and> bp_page ps = 1 \<and> bp_page_size ps = 12)
   \<and> timer (step (run mount designFilter) ClearFiltersClick) = timer (run mount designFilter)"
proof -
  let ?w = "run mount [BrowseSettled 0 (Inr page1)]"
  let ?rest = "[(100, ''de''), (100, ''des'')] :: (nat \<times> string) list"
  let ?nbsp = "[(50, [CHR 0xA0])] :: (nat \<times> string) list"
  have h: "''d'' \<noteq> searchQuery (cur ?w) \<and> changes ''d'' ?rest"
    by (simp add: sample_defs eval_defs)
  have g: "''x'' \<noteq> searchQuery (cur ?w) \<and> changes ''x'' ?nbsp"
    by (simp add: sample_defs eval_defs)
  have e: "searchQuery (cur ?w) = []" "skillFilter (cur ?w) = []"
    "locationFilter (cur ?w) = []"
    by (simp_all add: sample_defs eval_defs)
  have l: "(299::nat) < 300" by simp
  have k: "\<not> keepsFilters ClearFiltersClick" by simp
  have o: "offered ?w (PageClick 2)"
    by (simp add: sample_defs eval_defs page_strips)
  note inst = C2_debounce [of "''d''" ?w ?rest _ _ _ 2]
  from inst h l have 1:
    "sent (run ?w (QueryInput ''d'' # typing ?rest @ [Elapse 299])) = sent ?w"
    by blast
  from inst h have
    "sent (run ?w (QueryInput ''d'' # typing ?rest @ [Elapse 300])) =
       sent ?w @ [if trim (last (''d'' # map snd ?rest)) = []
                    then BrowseReq \<lparr>bp_page = 1, bp_page_size = 12,
                           bp_skill_filter = param (skillFilter (cur ?w)),
                           bp_location_filter = param (locationFilter (cur ?w))\<rparr>
                    else SearchReq \<lparr>sp_q = last (''d'' # map snd ?rest), sp_limit = 20\<rparr>]"
    by blast
  then have 2:
    "sent (run ?w (QueryInput ''d'' # typing ?rest @ [Elapse 300])) =
       sent ?w @ [SearchReq \<lparr>sp_q = ''des'', sp_limit = 20\<rparr>]"
    by (simp add: trim_def is_space_def del: run.simps step.simps typing.simps)
  from C2_debounce [of "''x''" ?w ?nbsp] g have
    "sent (run ?w (QueryInput ''x'' # typing ?nbsp @ [Elapse 300])) =
       sent ?w @ [if trim (last (''x'' # map snd ?nbsp)) = []
                    then BrowseReq \<lparr>bp_page = 1, bp_page_size = 12,
                           bp_skill_filter = param (skillFilter (cur ?w)),
                           bp_location_filter = param (locationFilter (cur ?w))\<rparr>
                    else SearchReq \<lparr>sp_q = last (''x'' # map snd ?nbsp), sp_limit = 20\<rparr>]"
    by blast
  then have 3:
    "sent (run ?w (QueryInput ''x'' # typing ?nbsp @ [Elapse 300])) =
       sent ?w @ [BrowseReq \<lparr>bp_page = 1, bp_page_size = 12, bp_skill_filter = None,
                bp_location_filter = None\<rparr>]"
    using e(2,3) by (simp add: trim_def is_space_def del: run.simps step.simps typing.simps)
  from inst o have
    "sent (step ?w (PageClick 2)) =
          sent ?w @ [BrowseReq \<lparr>bp_page = 2, bp_page_size = 12,
                      bp_skill_filter = param (skillFilter (cur ?w)),
                      bp_location_filter = param (locationFilter (cur ?w))\<rparr>]"
    by blast
  then have 4:
    "sent (step ?w (PageClick 2)) =
          sent ?w @ [BrowseReq \<lparr>bp_page = 2, bp_page_size = 12, bp_skill_filter = None,
                      bp_location_filter = None\<rparr>]"
    using e(2,3) by (simp del: run.simps step.simps)
  from C2_debounce [of _ "run mount designFilter" _ _ _ _ _ _ ClearFiltersClick] k
  have 5: "(\<exists>ps. sent (step (run mount designFilter) ClearFiltersClick)
               = sent (run mount designFilter) @ [BrowseReq ps]
            \<and> bp_page ps = 1 \<and> bp_page_size ps = 12)
      \<and> timer (step (run mount designFilter) ClearFiltersClick)
          = timer (run mount designFilter)"
    by blast
  show ?thesis using h g l k o e(1) 1 2 3 4 5 by blast
qed

section \<open>Mode selection (C3)\<close>

text \<open>
  C3 says that the page is in Search mode exactly when the trimmed query is not empty, for
  the fetch that is dispatched as well as for the visible mode (results header, page
  strip), so that a query of white space only yields Browse mode throughout. Here the
  query is two spaces: \<^verbatim>\<open>searchUsers\<close> trims it and dispatches the Browse fetch of
  page 1, whose response with five pages is accepted, while the header, the page strip and
  \<^verbatim>\<open>handlePageChange\<close> test the untrimmed string: the header reads Search Results, the
  strip is not rendered, and a page change does nothing.
\<close>

theorem C3_blank_query_shown_as_search:
  "feasible mount
     [BrowseSettled 0 (Inr page1), QueryInput ''  '', Elapse 300, BrowseSettled 1 (Inr page1)]
   \<and> trim ''  '' = []
   \<and> sent (run mount [BrowseSettled 0 (Inr page1), QueryInput ''  '', Elapse 300])
       = [BrowseReq \<lparr>bp_page = 1, bp_page_size = 12, bp_skill_filter = None,
            bp_location_filter = None\<rparr>,
          BrowseReq \<lparr>bp_page = 1, bp_page_size = 12, bp_skill_filter = None,
            bp_location_filter = None\<rparr>]
   \<and> acceptedMode (run mount [BrowseSettled 0 (Inr page1), QueryInput ''  '', Elapse 300,
        BrowseSettled 1 (Inr page1)]) = Some Browse
   \<and> resultsHeader (cur (run mount [BrowseSettled 0 (Inr page1), QueryInput ''  '',
        Elapse 300, BrowseSettled 1 (Inr page1)])) = ''Search Results''
   \<and> displayedMode (cur (run mount [BrowseSettled 0 (Inr page1), QueryInput ''  '',
        Elapse 300, BrowseSettled 1 (Inr page1)])) = Search
   \<and> totalPages (cur (run mount [BrowseSettled 0 (Inr page1), QueryInput ''  '',
        Elapse 300, BrowseSettled 1 (Inr page1)])) = 5
   \<and> \<not> paginationRendered (cur (run mount [BrowseSettled 0 (Inr page1), QueryInput ''  '',
        Elapse 300, BrowseSettled 1 (Inr page1)]))
   \<and> step (run mount [BrowseSettled 0 (Inr page1), QueryInput ''  '', Elapse 300,
        BrowseSettled 1 (Inr page1)]) (PageClick 2)
       = run mount [BrowseSettled 0 (Inr page1), QueryInput ''  '', Elapse 300,
           BrowseSettled 1 (Inr page1)]"
  by (simp add: sample_defs eval_defs)

section \<open>Leaving Search for Browse (C4)\<close>

text \<open>
  C4 says that entering a query and then clearing it issues a Browse fetch again and
  restores the exact filters and the exact page that were active before. In the run below
  the user is on page 3 of the users filtered by the skill Design, searches for \<open>a\<close>,
  and clears the query: the fetch dispatched when the debounce timer fires carries the
  Design filter but asks for page 1, not for page 3, and page 1 is what is then shown.
\<close>

theorem C4_page_not_restored:
  "feasible mount (designPage3 @ excursion @ [QueryInput [], Elapse 300,
      BrowseSettled 5 (Inr designPage1)])
   \<and> searchQuery (cur (run mount designPage3)) = []
   \<and> skillFilter (cur (run mount designPage3)) = ''Design''
   \<and> currentPage (cur (run mount designPage3)) = 3
   \<and> searchQuery (cur (run mount (designPage3 @ excursion))) = ''a''
   \<and> last (sent (run mount (designPage3 @ excursion @ [QueryInput [], Elapse 300])))
       = BrowseReq \<lparr>bp_page = 1, bp_page_size = 12, bp_skill_filter = Some ''Design'',
           bp_location_filter = None\<rparr>
   \<and> last (sent (run mount (designPage3 @ excursion @ [QueryInput [], Elapse 300])))
       \<noteq> BrowseReq \<lparr>bp_page = 3, bp_page_size = 12, bp_skill_filter = Some ''Design'',
           bp_location_filter = None\<rparr>
   \<and> currentPage (cur (run mount (designPage3 @ excursion @ [QueryInput [], Elapse 300,
        BrowseSettled 5 (Inr designPage1)]))) = 1"
  by (simp add: sample_defs eval_defs page_strips)

text \<open>
  C4, as the page behaves: whatever happens during a Search excursion short of a filter
  intent, clearing the non-empty query is not a no-op: once the debounce window of 300
  milliseconds has passed, exactly one fetch is dispatched, the Browse fetch of page 1
  (not of the page shown before the excursion) with the filters that were active before
  the excursion, and the filters in the state are the same as before it.
\<close>

theorem C4_clearing_query_browses_page_one:
  assumes "list_all keepsFilters es" and "searchQuery (cur (run w es)) \<noteq> []"
  shows "sent (run w (es @ [QueryInput [], Elapse 300])) =
           sent (run w es) @ [BrowseReq \<lparr>bp_page = 1, bp_page_size = 12,
                      bp_skill_filter = param (skillFilter (cur w)),
                      bp_location_filter = param (locationFilter (cur w))\<rparr>]
         \<and> skillFilter (cur (run w (es @ [QueryInput [], Elapse 300]))) = skillFilter (cur w)
         \<and> locationFilter (cur (run w (es @ [QueryInput [], Elapse 300])))
             = locationFilter (cur w)"
proof -
  let ?v = "run w es"
  have f: "skillFilter (cur ?v) = skillFilter (cur w)"
    "locationFilter (cur ?v) = locationFilter (cur w)"
    using keepsFilters_run [OF assms(1)] by simp_all
  have q: "step ?v (QueryInput []) = typed ?v []"
    using assms(2) step_QueryInput_typed [of "[]" ?v] by simp
  have r: "run w (es @ [QueryInput [], Elapse 300]) = step (typed ?v []) (Elapse 300)"
    using q by (simp add: run_append del: step.simps)
  have s: "sent (step (typed ?v []) (Elapse 300)) =
             sent ?v @ [BrowseReq \<lparr>bp_page = 1, bp_page_size = 12,
                      bp_skill_filter = param (skillFilter (cur w)),
                      bp_location_filter = param (locationFilter (cur w))\<rparr>]"
    using typed_fire(1) [of 300 ?v "[]"] f by (simp add: trim_def del: step.simps)
  have k: "skillFilter (cur (step (typed ?v []) (Elapse 300))) = skillFilter (cur ?v)"
    "locationFilter (cur (step (typed ?v []) (Elapse 300))) = locationFilter (cur ?v)"
    using keepsFilters_step [of "Elapse 300" "typed ?v []"]
    by (simp_all add: typed_def del: step.simps)
  show ?thesis using r s k f by (simp del: step.simps)
qed

theorem C4_clearing_query_browses_page_one_witness:
  "list_all keepsFilters excursion
   \<and> searchQuery (cur (run (run mount designPage3) excursion)) \<noteq> []
   \<and> sent (run (run mount designPage3) (excursion @ [QueryInput [], Elapse 300])) =
       sent (run (run mount designPage3) excursion)
         @ [BrowseReq \<lparr>bp_page = 1, bp_page_size = 12, bp_skill_filter = Some ''Design'',
              bp_location_filter = None\<rparr>]
   \<and> skillFilter (cur (run (run mount designPage3) (excursion @ [QueryInput [], Elapse 300])))
       = ''Design''"
proof -
  let ?w = "run mount designPage3"
  have h1: "list_all keepsFilters excursion"
    by (simp add: excursion_def)
  have h2: "searchQuery (cur (run ?w excursion)) \<noteq> []"
    by (simp add: sample_defs eval_defs)
  have f: "skillFilter (cur ?w) = ''Design''" "locationFilter (cur ?w) = []"
    by (simp_all add: sample_defs eval_defs)
  from C4_clearing_query_browses_page_one [OF h1 h2] f
  have "sent (run ?w (excursion @ [QueryInput [], Elapse 300])) =
       sent (run ?w excursion)
         @ [BrowseReq \<lparr>bp_page = 1, bp_page_size = 12, bp_skill_filter = Some ''Design'',
              bp_location_filter = None\<rparr>]
     \<and> skillFilter (cur (run ?w (excursion @ [QueryInput [], Elapse 300]))) = ''Design''"
    by (simp del: run.simps)
  with h1 h2 show ?thesis by blast
qed

section \<open>Clearing the filters (C6)\<close>

text \<open>
  C6 says that clearing all filters in Browse mode with a filter active makes the very
  next fetch a Browse fetch of page 1 without a skill and without a location parameter, by
  the Clear Filters button of the results header as by the clear action of the sidebar.
  With the skill filter Design active and an empty query, the click on the button of the
  results header empties both filters in the state and calls \<^verbatim>\<open>browseUsers(1)\<close>, whose
  defaults are the filters of the render that created the handler: the fetch still carries
  the skill Design. The clear action of the sidebar passes both empty strings and
  dispatches the fetch without filters.
\<close>

theorem C6_clear_button_fetches_with_old_filter:
  "feasible mount (designFilter @ [ClearFiltersClick])
   \<and> searchQuery (cur (run mount designFilter)) = []
   \<and> skillFilter (cur (run mount designFilter)) = ''Design''
   \<and> sent (run mount (designFilter @ [ClearFiltersClick])) =
       sent (run mount designFilter)
         @ [BrowseReq \<lparr>bp_page = 1, bp_page_size = 12, bp_skill_filter = Some ''Design'',
              bp_location_filter = None\<rparr>]
   \<and> skillFilter (cur (run mount (designFilter @ [ClearFiltersClick]))) = []
   \<and> locationFilter (cur (run mount (designFilter @ [ClearFiltersClick]))) = []
   \<and> feasible mount (designFilter @ [SidebarClear])
   \<and> sent (run mount (designFilter @ [SidebarClear])) =
       sent (run mount designFilter)
         @ [BrowseReq \<lparr>bp_page = 1, bp_page_size = 12, bp_skill_filter = None,
              bp_location_filter = None\<rparr>]"
  by (simp add: sample_defs eval_defs)

section \<open>Failure handling (C7)\<close>

text \<open>
  C7 says that after a failed fetch the previously accepted result list and pagination
  state remain unchanged. A filter intent sets \<open>currentPage\<close> to 1 before its fetch, and
  neither \<^verbatim>\<open>catch\<close> nor \<^verbatim>\<open>finally\<close> sets it back. In the run below the user is on page 3 of
  the users filtered by Design and clears the filters in the sidebar; the fetch fails, and
  the page shows the users of page 3 with the page strip at page 1.
\<close>

theorem C7_failed_filter_fetch_leaves_page_one:
  "feasible mount (designPage3 @ [SidebarClear, BrowseSettled 4 (Inl ServiceError)])
   \<and> resultPage (cur (run mount designPage3)) = ([''u5'', ''u6''], 30, 3, 3, False, True)
   \<and> accepted (run mount (designPage3 @ [SidebarClear, BrowseSettled 4 (Inl ServiceError)]))
       = Some (BrowseResponse page3)
   \<and> resultPage (cur (run mount
        (designPage3 @ [SidebarClear, BrowseSettled 4 (Inl ServiceError)])))
       = ([''u5'', ''u6''], 30, 1, 3, False, True)
   \<and> resultPage (cur (run mount
        (designPage3 @ [SidebarClear, BrowseSettled 4 (Inl ServiceError)])))
       \<noteq> resultPage (cur (run mount designPage3))
   \<and> paginationRendered (cur (run mount
        (designPage3 @ [SidebarClear, BrowseSettled 4 (Inl ServiceError)])))
   \<and> toasts (run mount (designPage3 @ [SidebarClear, BrowseSettled 4 (Inl ServiceError)]))
       = [''Failed to load users'']"
  by (simp add: sample_defs eval_defs page_strips)

text \<open>
  C7, as the page behaves. When a fetch in flight fails, the failure itself changes
  neither the user list nor the counts nor any pagination field (nothing is emptied), an
  error toast is shown, the loading flag of that kind of fetch is turned off, and no fetch
  is dispatched and no timer is set by the failure (no retry). A page click while the
  query is empty whose fetch fails leaves the result page as it was before the click.
  After a filter intent whose fetch fails, the user list, the counts, \<open>totalPages\<close>,
  \<open>hasNext\<close> and \<open>hasPrevious\<close> are as before the intent and \<open>currentPage\<close> is 1, as the
  intent set it. After a failure the page takes intents as before: a page click with an
  empty query dispatches the Browse fetch of that page.
\<close>

theorem C7_failure_changes_nothing_further:
  "(awaiting w i Browse \<longrightarrow>
      resultPage (cur (step w (BrowseSettled i (Inl e)))) = resultPage (cur w)
      \<and> toasts (step w (BrowseSettled i (Inl e))) = toasts w @ [''Failed to load users'']
      \<and> \<not> loading (cur (step w (BrowseSettled i (Inl e))))
      \<and> sent (step w (BrowseSettled i (Inl e))) = sent w
      \<and> timer (step w (BrowseSettled i (Inl e))) = timer w)
   \<and> (awaiting w i Search \<longrightarrow>
      resultPage (cur (step w (SearchSettled i (Inl e)))) = resultPage (cur w)
      \<and> toasts (step w (SearchSettled i (Inl e))) = toasts w @ [''Failed to search users'']
      \<and> \<not> searchLoading (cur (step w (SearchSettled i (Inl e))))
      \<and> sent (step w (SearchSettled i (Inl e))) = sent w
      \<and> timer (step w (SearchSettled i (Inl e))) = timer w)
   \<and> (searchQuery (cur w) = [] \<longrightarrow>
      resultPage (cur (run w [PageClick p, BrowseSettled (length (sent w)) (Inl e)]))
        = resultPage (cur w)
      \<and> toasts (run w [PageClick p, BrowseSettled (length (sent w)) (Inl e)])
        = toasts w @ [''Failed to load users''])
   \<and> (awaiting w i Browse \<and> searchQuery (cur w) = [] \<longrightarrow>
      sent (run w [BrowseSettled i (Inl e), PageClick p]) =
        sent w @ [BrowseReq \<lparr>bp_page = p, bp_page_size = 12,
                    bp_skill_filter = param (skillFilter (cur w)),
                    bp_location_filter = param (locationFilter (cur w))\<rparr>])
   \<and> (\<not> keepsFilters f \<longrightarrow>
      users (cur (run w [f, BrowseSettled (length (sent w)) (Inl e)])) = users (cur w)
      \<and> totalCount (cur (run w [f, BrowseSettled (length (sent w)) (Inl e)]))
          = totalCount (cur w)
      \<and> totalPages (cur (run w [f, BrowseSettled (length (sent w)) (Inl e)]))
          = totalPages (cur w)
      \<and> hasNext (cur (run w [f, BrowseSettled (length (sent w)) (Inl e)])) = hasNext (cur w)
      \<and> hasPrevious (cur (run w [f, BrowseSettled (length (sent w)) (Inl e)]))
          = hasPrevious (cur w)
      \<and> currentPage (cur (run w [f, BrowseSettled (length (sent w)) (Inl e)])) = 1
      \<and> toasts (run w [f, BrowseSettled (length (sent w)) (Inl e)])
          = toasts w @ [''Failed to load users'']
      \<and> \<not> loading (cur (run w [f, BrowseSettled (length (sent w)) (Inl e)])))"
proof (intro conjI impI)
  assume a: "awaiting w i Browse"
  from browse_failure [OF a, of e]
  show "resultPage (cur (step w (BrowseSettled i (Inl e)))) = resultPage (cur w)"
    and "toasts (step w (BrowseSettled i (Inl e))) = toasts w @ [''Failed to load users'']"
    and "\<not> loading (cur (step w (BrowseSettled i (Inl e))))"
    and "sent (step w (BrowseSettled i (Inl e))) = sent w"
    and "timer (step w (BrowseSettled i (Inl e))) = timer w"
    by blast+
next
  assume a: "awaiting w i Search"
  from search_failure [OF a, of e]
  show "resultPage (cur (step w (SearchSettled i (Inl e)))) = resultPage (cur w)"
    and "toasts (step w (SearchSettled i (Inl e))) = toasts w @ [''Failed to search users'']"
    and "\<not> searchLoading (cur (step w (SearchSettled i (Inl e))))"
    and "sent (step w (SearchSettled i (Inl e))) = sent w"
    and "timer (step w (SearchSettled i (Inl e))) = timer w"
    by blast+
next
  assume q: "searchQuery (cur w) = []"
  let ?v = "step w (PageClick p)"
  from page_click_browse [OF q, of p]
  have a: "awaiting ?v (length (sent w)) Browse"
    and r: "resultPage (cur ?v) = resultPage (cur w)"
    and t: "toasts ?v = toasts w"
    by blast+
  from browse_failure [OF a, of e] r t
  show "resultPage (cur (run w [PageClick p, BrowseSettled (length (sent w)) (Inl e)]))
        = resultPage (cur w)"
    and "toasts (run w [PageClick p, BrowseSettled (length (sent w)) (Inl e)])
        = toasts w @ [''Failed to load users'']"
    by (simp_all del: step.simps)
next
  assume h: "awaiting w i Browse \<and> searchQuery (cur w) = []"
  let ?v = "step w (BrowseSettled i (Inl e))"
  from h browse_failure [of w i e]
  have "searchQuery (cur ?v) = []" and "sent ?v = sent w"
    and "skillFilter (cur ?v) = skillFilter (cur w)"
    and "locationFilter (cur ?v) = locationFilter (cur w)"
    by simp_all
  with page_click_browse [of ?v p]
  show "sent (run w [BrowseSettled i (Inl e), PageClick p]) =
        sent w @ [BrowseReq \<lparr>bp_page = p, bp_page_size = 12,
                    bp_skill_filter = param (skillFilter (cur w)),
                    bp_location_filter = param (locationFilter (cur w))\<rparr>]"
    by (simp del: step.simps)
next
  assume k: "\<not> keepsFilters f"
  let ?v = "step w f"
  let ?u = "run w [f, BrowseSettled (length (sent w)) (Inl e)]"
  from filter_intent_step [OF k, of w]
  have a: "awaiting ?v (length (sent w)) Browse"
    and fields: "users (cur ?v) = users (cur w)" "totalCount (cur ?v) = totalCount (cur w)"
      "totalPages (cur ?v) = totalPages (cur w)" "hasNext (cur ?v) = hasNext (cur w)"
      "hasPrevious (cur ?v) = hasPrevious (cur w)" "currentPage (cur ?v) = 1"
    and t: "toasts ?v = toasts w"
    by blast+
  have u: "?u = step ?v (BrowseSettled (length (sent w)) (Inl e))"
    by simp
  from browse_failure [OF a, of e]
  have r: "resultPage (cur ?u) = resultPage (cur ?v)"
    and t': "toasts ?u = toasts ?v @ [''Failed to load users'']"
    and l: "\<not> loading (cur ?u)"
    unfolding u by blast+
  from r fields t t' l
  show "users (cur ?u) = users (cur w)"
    and "totalCount (cur ?u) = totalCount (cur w)"
    and "totalPages (cur ?u) = totalPages (cur w)"
    and "hasNext (cur ?u) = hasNext (cur w)"
    and "hasPrevious (cur ?u) = hasPrevious (cur w)"
    and "currentPage (cur ?u) = 1"
    and "toasts ?u = toasts w @ [''Failed to load users'']"
    and "\<not> loading (cur ?u)"
    by (simp_all add: resultPage_def del: step.simps run.simps)
qed

theorem C7_failure_changes_nothing_further_witness:
  "awaiting (run mount [BrowseSettled 0 (Inr page1), PageClick 2]) 1 Browse
   \<and> users (cur (step (run mount [BrowseSettled 0 (Inr page1), PageClick 2])
        (BrowseSettled 1 (Inl ServiceError)))) = [''u1'', ''u2'']
   \<and> resultPage (cur (step (run mount [BrowseSettled 0 (Inr page1), PageClick 2])
        (BrowseSettled 1 (Inl ServiceError)))) = ([''u1'', ''u2''], 50, 1, 5, True, False)
   \<and> toasts (step (run mount [BrowseSettled 0 (Inr page1), PageClick 2])
        (BrowseSettled 1 (Inl ServiceError))) = [''Failed to load users'']
   \<and> \<not> loading (cur (step (run mount [BrowseSettled 0 (Inr page1), PageClick 2])
        (BrowseSettled 1 (Inl ServiceError))))
   \<and> awaiting (run mount twoSearches) 2 Search
   \<and> users (cur (step (run mount twoSearches) (SearchSettled 2 (Inl ServiceError))))
       = [''u1'', ''u2'']
   \<and> searchQuery (cur (run mount [BrowseSettled 0 (Inr page1)])) = []
   \<and> resultPage (cur (run (run mount [BrowseSettled 0 (Inr page1)])
        [PageClick 2, BrowseSettled 1 (Inl ServiceError)]))
       = ([''u1'', ''u2''], 50, 1, 5, True, False)
   \<and> \<not> keepsFilters SidebarClear
   \<and> users (cur (run (run mount designPage3)
        [SidebarClear, BrowseSettled 4 (Inl ServiceError)])) = [''u5'', ''u6'']
   \<and> totalPages (cur (run (run mount designPage3)
        [SidebarClear, BrowseSettled 4 (Inl ServiceError)])) = 3
   \<and> currentPage (cur (run (run mount designPage3)
        [SidebarClear, BrowseSettled 4 (Inl ServiceError)])) = 1"
proof -
  let ?w = "run mount [BrowseSettled 0 (Inr page1), PageClick 2]"
  let ?v = "run mount twoSearches"
  let ?u = "run mount [BrowseSettled 0 (Inr page1)]"
  have a: "awaiting ?w 1 Browse" and b: "awaiting ?v 2 Search"
    and q: "searchQuery (cur ?u) = []"
    by (simp_all add: sample_defs eval_defs)
  have w: "resultPage (cur ?w) = ([''u1'', ''u2''], 50, 1, 5, True, False)" "toasts ?w = []"
    and v: "resultPage (cur ?v) = ([''u1'', ''u2''], 50, 1, 5, True, False)"
    and u: "resultPage (cur ?u) = ([''u1'', ''u2''], 50, 1, 5, True, False)"
    "length (sent ?u) = 1"
    by (simp_all add: sample_defs eval_defs)
  from C7_failure_changes_nothing_further [of ?w 1 ServiceError] a w
  have 1: "resultPage (cur (step ?w (BrowseSettled 1 (Inl ServiceError))))
             = ([''u1'', ''u2''], 50, 1, 5, True, False)
     \<and> toasts (step ?w (BrowseSettled 1 (Inl ServiceError))) = [''Failed to load users'']
     \<and> \<not> loading (cur (step ?w (BrowseSettled 1 (Inl ServiceError))))"
    by (simp del: run.simps step.simps)
  then have 2: "users (cur (step ?w (BrowseSettled 1 (Inl ServiceError)))) = [''u1'', ''u2'']"
    by (simp add: resultPage_def del: run.simps step.simps)
  from C7_failure_changes_nothing_further [of ?v 2 ServiceError] b v
  have "resultPage (cur (step ?v (SearchSettled 2 (Inl ServiceError))))
          = ([''u1'', ''u2''], 50, 1, 5, True, False)"
    by (simp del: run.simps step.simps)
  then have 3: "users (cur (step ?v (SearchSettled 2 (Inl ServiceError)))) = [''u1'', ''u2'']"
    by (simp add: resultPage_def del: run.simps step.simps)
  from C7_failure_changes_nothing_further [of ?u _ ServiceError 2] q u
  have 4: "resultPage (cur (run ?u [PageClick 2, BrowseSettled 1 (Inl ServiceError)]))
          = ([''u1'', ''u2''], 50, 1, 5, True, False)"
    by (simp del: run.simps step.simps)
  have k: "\<not> keepsFilters SidebarClear" by simp
  have d: "users (cur (run mount designPage3)) = [''u5'', ''u6'']"
    "totalPages (cur (run mount designPage3)) = 3"
    "length (sent (run mount designPage3)) = 4"
    by (simp_all add: sample_defs eval_defs page_strips)
  from C7_failure_changes_nothing_further
    [of "run mount designPage3" _ ServiceError _ SidebarClear] k d
  have 5: "users (cur (run (run mount designPage3)
        [SidebarClear, BrowseSettled 4 (Inl ServiceError)])) = [''u5'', ''u6'']
     \<and> totalPages (cur (run (run mount designPage3)
        [SidebarClear, BrowseSettled 4 (Inl ServiceError)])) = 3
     \<and> currentPage (cur (run (run mount designPage3)
        [SidebarClear, BrowseSettled 4 (Inl ServiceError)])) = 1"
    by (simp del: run.simps step.simps)
  show ?thesis using a b q k 1 2 3 4 5 by blast
qed

section \<open>One current result (C8)\<close>

text \<open>
  C8 says that in every reachable state the one current result page carries a consistent
  mode tag and that all its pagination fields are those of the accepted response, also
  after a filter change or a popular-skill click made while a query is present. The page
  stores no mode with its results: after the first edit of the search box the header
  already reads Search Results over the Browse results that are still current; and after
  a popular-skill click made while the query \<open>a\<close> is present, the Browse response is
  accepted (three pages of users with the skill Design) and is shown under the header
  Search Results, without the page strip. Nor is \<open>currentPage\<close> always that of the accepted
  response: a filter intent (here applying the skill Art) sets it to 1 before its fetch,
  and when that fetch fails the users of page 3, accepted last, are shown with the page
  strip at page 1.
\<close>

theorem C8_mode_and_page_differ_from_result:
  "feasible mount [BrowseSettled 0 (Inr page1), QueryInput ''a'']
   \<and> acceptedMode (run mount [BrowseSettled 0 (Inr page1), QueryInput ''a'']) = Some Browse
   \<and> displayedMode (cur (run mount [BrowseSettled 0 (Inr page1), QueryInput ''a''])) = Search
   \<and> feasible mount [BrowseSettled 0 (Inr page1), QueryInput ''a'', Elapse 300,
       SearchSettled 1 (Inr resultsA), PopularSkillClick ''Design'',
       BrowseSettled 2 (Inr designPage1)]
   \<and> acceptedMode (run mount [BrowseSettled 0 (Inr page1), QueryInput ''a'', Elapse 300,
       SearchSettled 1 (Inr resultsA), PopularSkillClick ''Design'',
       BrowseSettled 2 (Inr designPage1)]) = Some Browse
   \<and> displayedMode (cur (run mount [BrowseSettled 0 (Inr page1), QueryInput ''a'',
       Elapse 300, SearchSettled 1 (Inr resultsA), PopularSkillClick ''Design'',
       BrowseSettled 2 (Inr designPage1)])) = Search
   \<and> resultsHeader (cur (run mount [BrowseSettled 0 (Inr page1), QueryInput ''a'',
       Elapse 300, SearchSettled 1 (Inr resultsA), PopularSkillClick ''Design'',
       BrowseSettled 2 (Inr designPage1)])) = ''Search Results''
   \<and> resultPage (cur (run mount [BrowseSettled 0 (Inr page1), QueryInput ''a'',
       Elapse 300, SearchSettled 1 (Inr resultsA), PopularSkillClick ''Design'',
       BrowseSettled 2 (Inr designPage1)])) = ([''d1'', ''d2''], 30, 1, 3, True, False)
   \<and> \<not> paginationRendered (cur (run mount [BrowseSettled 0 (Inr page1), QueryInput ''a'',
       Elapse 300, SearchSettled 1 (Inr resultsA), PopularSkillClick ''Design'',
       BrowseSettled 2 (Inr designPage1)]))
   \<and> feasible mount (designPage3 @ [SkillInput ''Art'', ApplyFilters, BrowseSettled 4 (Inl ServiceError)])
   \<and> accepted (run mount (designPage3 @ [SkillInput ''Art'', ApplyFilters, BrowseSettled 4 (Inl ServiceError)]))
       = Some (BrowseResponse page3)
   \<and> br_page page3 = 3
   \<and> currentPage (cur (run mount
        (designPage3 @ [SkillInput ''Art'', ApplyFilters, BrowseSettled 4 (Inl ServiceError)]))) = 1
   \<and> users (cur (run mount
        (designPage3 @ [SkillInput ''Art'', ApplyFilters, BrowseSettled 4 (Inl ServiceError)]))) = [''u5'', ''u6'']
   \<and> paginationRendered (cur (run mount
        (designPage3 @ [SkillInput ''Art'', ApplyFilters, BrowseSettled 4 (Inl ServiceError)])))"
  by (simp add: sample_defs eval_defs page_strips)

text \<open>
  C8, as the page behaves. In every state reached from mounting, the user list, the
  counts, \<open>totalPages\<close>, \<open>hasNext\<close> and \<open>hasPrevious\<close> are those of one response, the one
  accepted last, and \<open>currentPage\<close> is the page of that response or 1; while that response
  is a Search response, \<open>currentPage = 1\<close>, \<open>totalPages = 1\<close> and
  \<open>hasNext = hasPrevious = false\<close>; the page strip is rendered only while that response
  is a Browse response, so never alongside Search results. Accepting a response replaces
  the user list, the counts and all pagination fields in one step.
\<close>

theorem C8_single_current_result:
  "singleResult (run mount es)
   \<and> (acceptedMode (run mount es) = Some Search \<longrightarrow>
        currentPage (cur (run mount es)) = 1 \<and> totalPages (cur (run mount es)) = 1
        \<and> \<not> hasNext (cur (run mount es)) \<and> \<not> hasPrevious (cur (run mount es)))
   \<and> (paginationRendered (cur (run mount es)) \<longrightarrow> acceptedMode (run mount es) = Some Browse)
   \<and> (awaiting w i Browse \<longrightarrow>
        resultPage (cur (step w (BrowseSettled i (Inr d)))) =
          (br_users d, br_total_count d, br_page d, br_total_pages d, br_has_next d,
           br_has_previous d)
        \<and> accepted (step w (BrowseSettled i (Inr d))) = Some (BrowseResponse d))
   \<and> (awaiting w i Search \<longrightarrow>
        resultPage (cur (step w (SearchSettled i (Inr s)))) =
          (sr_users s, sr_total_count s, 1, 1, False, False)
        \<and> accepted (step w (SearchSettled i (Inr s))) = Some (SearchResponse s))"
proof -
  have inv: "singleResult (run mount es)"
    using singleResult_mount singleResult_run by blast
  show ?thesis
    using inv search_result_fixed [OF inv] pagination_needs_browse [OF inv]
      browse_accept [of w i d] search_accept [of w i s]
    by (simp del: step.simps)
qed

theorem C8_single_current_result_witness:
  "singleResult (run mount (twoSearches @ [SearchSettled 2 (Inr resultsB)]))
   \<and> acceptedMode (run mount (twoSearches @ [SearchSettled 2 (Inr resultsB)])) = Some Search
   \<and> totalPages (cur (run mount (twoSearches @ [SearchSettled 2 (Inr resultsB)]))) = 1
   \<and> \<not> hasNext (cur (run mount (twoSearches @ [SearchSettled 2 (Inr resultsB)])))
   \<and> paginationRendered (cur (run mount designFilter))
   \<and> acceptedMode (run mount designFilter) = Some Browse
   \<and> awaiting mount 0 Browse
   \<and> resultPage (cur (step mount (BrowseSettled 0 (Inr page1))))
       = ([''u1'', ''u2''], 50, 1, 5, True, False)
   \<and> awaiting (run mount twoSearches) 2 Search
   \<and> resultPage (cur (step (run mount twoSearches) (SearchSettled 2 (Inr resultsB))))
       = ([''bob'', ''bo''], 2, 1, 1, False, False)"
proof -
  let ?a = "twoSearches @ [SearchSettled 2 (Inr resultsB)]"
  let ?v = "run mount twoSearches"
  have m: "acceptedMode (run mount ?a) = Some Search"
    and p: "paginationRendered (cur (run mount designFilter))"
    and b: "awaiting mount 0 Browse"
    and s: "awaiting ?v 2 Search"
    by (simp_all add: sample_defs eval_defs)
  from C8_single_current_result [of ?a] m
  have 1: "singleResult (run mount ?a) \<and> totalPages (cur (run mount ?a)) = 1
      \<and> \<not> hasNext (cur (run mount ?a))"
    by blast
  from C8_single_current_result [of designFilter] p
  have 2: "acceptedMode (run mount designFilter) = Some Browse"
    by blast
  from C8_single_current_result [of _ mount 0 page1] b
  have "resultPage (cur (step mount (BrowseSettled 0 (Inr page1)))) =
          (br_users page1, br_total_count page1, br_page page1, br_total_pages page1,
           br_has_next page1, br_has_previous page1)"
    by blast
  then have 3: "resultPage (cur (step mount (BrowseSettled 0 (Inr page1))))
       = ([''u1'', ''u2''], 50, 1, 5, True, False)"
    by (simp add: page1_def del: step.simps)
  from C8_single_current_result [of _ ?v 2 _ resultsB] s
  have "resultPage (cur (step ?v (SearchSettled 2 (Inr resultsB)))) =
          (sr_users resultsB, sr_total_count resultsB, 1, 1, False, False)"
    by blast
  then have 4: "resultPage (cur (step ?v (SearchSettled 2 (Inr resultsB))))
       = ([''bob'', ''bo''], 2, 1, 1, False, False)"
    by (simp add: resultsB_def del: step.simps run.simps)
  show ?thesis using m p b s 1 2 3 4 by blast
qed

section \<open>Fetch selection (C9)\<close>

text \<open>
  C9. A Browse fetch asks for the page it was given (page 1 when none was given) with page
  size 12, and carries the skill and the location parameter only when the filter string is
  not empty; a Search fetch carries the whole query string, as typed, with limit 20, and
  \<^verbatim>\<open>searchUsers\<close> sends it exactly when the trimmed query is not empty (otherwise it sends
  the Browse fetch of page 1). Every fetch dispatched in any run from mounting has page
  size 12 and no empty filter parameter, or limit 20 and a query that is not blank.
\<close>

theorem C9_fetch_selection:
  "sent (browseUsers c page skill location w) =
     sent w @ [BrowseReq \<lparr>bp_page = (case page of None \<Rightarrow> 1 | Some p \<Rightarrow> p),
       bp_page_size = 12,
       bp_skill_filter = param (case skill of None \<Rightarrow> skillFilter c | Some s \<Rightarrow> s),
       bp_location_filter =
         param (case location of None \<Rightarrow> locationFilter c | Some l \<Rightarrow> l)\<rparr>]
   \<and> (trim q \<noteq> [] \<longrightarrow>
        sent (searchUsers c q w) = sent w @ [SearchReq \<lparr>sp_q = q, sp_limit = 20\<rparr>])
   \<and> (trim q = [] \<longrightarrow>
        sent (searchUsers c q w) =
          sent w @ [BrowseReq \<lparr>bp_page = 1, bp_page_size = 12,
                      bp_skill_filter = param (skillFilter c),
                      bp_location_filter = param (locationFilter c)\<rparr>])
   \<and> (\<forall>r \<in> set (sent (run mount es)). wellFormed r)"
  using sent_browseUsers sent_searchUsers sent_searchUsers_blank
    wellFormed_run [OF wellFormed_mount]
  by blast

theorem C9_fetch_selection_witness:
  "trim '' ab '' \<noteq> []
   \<and> sent (searchUsers initial_render '' ab '' mount)
       = sent mount @ [SearchReq \<lparr>sp_q = '' ab '', sp_limit = 20\<rparr>]
   \<and> trim [CHR 0xA0] = []
   \<and> sent (searchUsers initial_render [CHR 0xA0] mount)
       = sent mount @ [BrowseReq \<lparr>bp_page = 1, bp_page_size = 12, bp_skill_filter = None,
           bp_location_filter = None\<rparr>]
   \<and> BrowseReq \<lparr>bp_page = 3, bp_page_size = 12, bp_skill_filter = Some ''Design'',
        bp_location_filter = None\<rparr> \<in> set (sent (run mount designPage3))
   \<and> wellFormed (BrowseReq \<lparr>bp_page = 3, bp_page_size = 12,
        bp_skill_filter = Some ''Design'', bp_location_filter = None\<rparr>)
   \<and> SearchReq \<lparr>sp_q = ''ab'', sp_limit = 20\<rparr> \<in> set (sent (run mount twoSearches))
   \<and> wellFormed (SearchReq \<lparr>sp_q = ''ab'', sp_limit = 20\<rparr>)"
proof -
  have t: "trim '' ab '' \<noteq> []"
    by (simp add: trim_def is_space_def)
  have n: "trim [CHR 0xA0] = []"
    by (simp add: trim_def is_space_def)
  have b: "BrowseReq \<lparr>bp_page = 3, bp_page_size = 12, bp_skill_filter = Some ''Design'',
        bp_location_filter = None\<rparr> \<in> set (sent (run mount designPage3))"
    and s: "SearchReq \<lparr>sp_q = ''ab'', sp_limit = 20\<rparr> \<in> set (sent (run mount twoSearches))"
    by (simp_all add: sample_defs eval_defs page_strips)
  from C9_fetch_selection [of initial_render _ _ _ mount "'' ab ''"] t
  have 1: "sent (searchUsers initial_render '' ab '' mount)
       = sent mount @ [SearchReq \<lparr>sp_q = '' ab '', sp_limit = 20\<rparr>]"
    by blast
  from C9_fetch_selection [of initial_render _ _ _ mount "[CHR 0xA0]"] n
  have "sent (searchUsers initial_render [CHR 0xA0] mount)
       = sent mount @ [BrowseReq \<lparr>bp_page = 1, bp_page_size = 12,
           bp_skill_filter = param (skillFilter initial_render),
           bp_location_filter = param (locationFilter initial_render)\<rparr>]"
    by blast
  then have 2: "sent (searchUsers initial_render [CHR 0xA0] mount)
       = sent mount @ [BrowseReq \<lparr>bp_page = 1, bp_page_size = 12, bp_skill_filter = None,
           bp_location_filter = None\<rparr>]"
    by (simp add: initial_render_def)
  from C9_fetch_selection [of _ _ _ _ _ _ designPage3] b
  have 3: "wellFormed (BrowseReq \<lparr>bp_page = 3, bp_page_size = 12,
        bp_skill_filter = Some ''Design'', bp_location_filter = None\<rparr>)"
    by blast
  from C9_fetch_selection [of _ _ _ _ _ _ twoSearches] s
  have 4: "wellFormed (SearchReq \<lparr>sp_q = ''ab'', sp_limit = 20\<rparr>)"
    by blast
  show ?thesis using t n b s 1 2 3 4 by blast
qed

section \<open>Page changes during a search (C10)\<close>

text \<open>
  C10. While the query string is not empty, a page change does nothing at all: no fetch is
  dispatched, and the user list, every pagination field, the filters and both loading
  flags, like the rest of the state, stay as they are; nor is the page strip rendered then.
  With an empty query a page change dispatches the Browse fetch of that page and turns the
  loading flag on.
\<close>

theorem C10_page_change_ignored_during_search:
  "(searchQuery (cur w) \<noteq> [] \<longrightarrow>
      step w (PageClick p) = w \<and> \<not> paginationRendered (cur w))
   \<and> (searchQuery (cur w) = [] \<longrightarrow>
        sent (step w (PageClick p)) =
          sent w @ [BrowseReq \<lparr>bp_page = p, bp_page_size = 12,
                      bp_skill_filter = param (skillFilter (cur w)),
                      bp_location_filter = param (locationFilter (cur w))\<rparr>]
        \<and> loading (cur (step w (PageClick p))))"
  by (simp add: handlePageChange_def paginationRendered_def browseUsers_def dispatch_def
      setState_def Let_def)

theorem C10_page_change_ignored_during_search_witness:
  "searchQuery (cur (run mount (twoSearches @ [SearchSettled 2 (Inr resultsB)]))) \<noteq> []
   \<and> step (run mount (twoSearches @ [SearchSettled 2 (Inr resultsB)])) (PageClick 2)
       = run mount (twoSearches @ [SearchSettled 2 (Inr resultsB)])
   \<and> searchQuery (cur (run mount designFilter)) = []
   \<and> sent (step (run mount designFilter) (PageClick 2))
       = sent (run mount designFilter)
           @ [BrowseReq \<lparr>bp_page = 2, bp_page_size = 12, bp_skill_filter = Some ''Design'',
                bp_location_filter = None\<rparr>]"
proof -
  let ?v = "run mount (twoSearches @ [SearchSettled 2 (Inr resultsB)])"
  let ?w = "run mount designFilter"
  have n: "searchQuery (cur ?v) \<noteq> []" and e: "searchQuery (cur ?w) = []"
    and f: "skillFilter (cur ?w) = ''Design''" "locationFilter (cur ?w) = []"
    by (simp_all add: sample_defs eval_defs)
  from C10_page_change_ignored_during_search [of ?v 2] n
  have 1: "step ?v (PageClick 2) = ?v"
    by blast
  from C10_page_change_ignored_during_search [of ?w 2] e
  have "sent (step ?w (PageClick 2)) =
          sent ?w @ [BrowseReq \<lparr>bp_page = 2, bp_page_size = 12,
                      bp_skill_filter = param (skillFilter (cur ?w)),
                      bp_location_filter = param (locationFilter (cur ?w))\<rparr>]"
    by blast
  then have 2: "sent (step ?w (PageClick 2)) =
          sent ?w @ [BrowseReq \<lparr>bp_page = 2, bp_page_size = 12,
                      bp_skill_filter = Some ''Design'', bp_location_filter = None\<rparr>]"
    using f by (simp del: step.simps run.simps)
  show ?thesis using n e 1 2 by blast
qed

end
